theory Spec2Isabelle
  imports Main "HOL-Library.Sublist" "HOL-Library.AList"
begin

section \<open>Python strings\<close>

text \<open>
  A Python \<open>str\<close> is modelled by \<^typ>\<open>string\<close>, read as the UTF-8 bytes of the text
  (what the program writes to and reads from its files). Every pattern the program
  searches for or replaces is ASCII, and an ASCII byte never occurs inside a UTF-8
  sequence of several bytes, so searching and replacing agree on both readings.
  The Chinese message texts of the source are given byte by byte.
\<close>

text \<open>\<open>sub in s\<close>: the substring test.\<close>

fun py_in :: "string \<Rightarrow> string \<Rightarrow> bool" where
  "py_in sub [] = (sub = [])"
| "py_in sub (c # cs) = (prefix sub (c # cs) \<or> py_in sub cs)"

text \<open>\<open>s.startswith(p)\<close> and \<open>s.endswith(p)\<close>.\<close>

definition startswith :: "string \<Rightarrow> string \<Rightarrow> bool" where
  "startswith s p = prefix p s"

definition endswith :: "string \<Rightarrow> string \<Rightarrow> bool" where
  "endswith s p = suffix p s"

text \<open>\<open>s.replace(c, r)\<close> for a pattern \<open>c\<close> of one character.\<close>

definition replace_char :: "char \<Rightarrow> string \<Rightarrow> string \<Rightarrow> string" where
  "replace_char c r s = concat (map (\<lambda>x. if x = c then r else [x]) s)"

text \<open>\<open>sep.join(parts)\<close>.\<close>

fun join :: "string \<Rightarrow> string list \<Rightarrow> string" where
  "join sep [] = []"
| "join sep [x] = x"
| "join sep (x # y # ys) = x @ sep @ join sep (y # ys)"

text \<open>\<open>str(n)\<close> for an integer: its decimal digits, with a minus sign when negative.\<close>

definition digit_char :: "nat \<Rightarrow> char" where
  "digit_char n = ''0123456789'' ! n"

fun digits_of :: "nat \<Rightarrow> string" where
  "digits_of n = (if n < 10 then [digit_char n] else digits_of (n div 10) @ [digit_char (n mod 10)])"

definition py_str_int :: "int \<Rightarrow> string" where
  "py_str_int i = (if i < 0 then CHR ''-'' # digits_of (nat (- i)) else digits_of (nat i))"

text \<open>
  The white space of \<open>shlex\<close> (\<open>' \t\r\n'\<close>) and of \<open>str.split()\<close>. The second is taken over
  ASCII, where it adds the vertical tab, the form feed and the four separators
  \<open>0x1C\<close> to \<open>0x1F\<close>; the white space Unicode has beyond ASCII is not modelled.
\<close>

definition shlex_whitespace :: "char set" where
  "shlex_whitespace = {CHR '' '', CHR 0x09, CHR 0x0D, CHR 0x0A}"

definition py_whitespace :: "char set" where
  "py_whitespace = {CHR '' '', CHR 0x09, CHR 0x0A, CHR 0x0B, CHR 0x0C, CHR 0x0D,
                    CHR 0x1C, CHR 0x1D, CHR 0x1E, CHR 0x1F}"

text \<open>\<open>s.split()\<close>: the maximal runs of characters that are not white space.\<close>

fun py_split_run :: "string \<Rightarrow> string \<Rightarrow> string list" where
  "py_split_run word [] = (if word = [] then [] else [word])"
| "py_split_run word (c # cs) =
     (if c \<in> py_whitespace
      then (if word = [] then py_split_run [] cs else word # py_split_run [] cs)
      else py_split_run (word @ [c]) cs)"

definition py_split :: "string \<Rightarrow> string list" where
  "py_split s = py_split_run [] s"

section \<open>Embedded files (\<open>models/embedded_files.py\<close>)\<close>

datatype FileType = FILE | DIRECTORY | PATTERN

record EmbeddedFile =
  source_path :: string
  destination_path :: string
  file_type :: FileType
  recursive :: bool
  pattern :: "string option"

definition msg_source_missing :: string where
  "msg_source_missing =
     [CHR 0xE6, CHR 0xBA, CHR 0x90, CHR 0xE8, CHR 0xB7, CHR 0xAF, CHR 0xE5, CHR 0xBE, CHR 0x84,
      CHR 0xE4, CHR 0xB8, CHR 0x8D, CHR 0xE5, CHR 0xAD, CHR 0x98, CHR 0xE5, CHR 0x9C, CHR 0xA8]
     @ '': ''"

definition msg_dest_backslash :: string where
  "msg_dest_backslash =
     [CHR 0xE7, CHR 0x9B, CHR 0xAE, CHR 0xE6, CHR 0xA0, CHR 0x87, CHR 0xE8, CHR 0xB7, CHR 0xAF,
      CHR 0xE5, CHR 0xBE, CHR 0x84, CHR 0xE4, CHR 0xB8, CHR 0x8D, CHR 0xE8, CHR 0x83, CHR 0xBD,
      CHR 0xE5, CHR 0x8C, CHR 0x85, CHR 0xE5, CHR 0x90, CHR 0xAB, CHR 0xE5, CHR 0x8F, CHR 0x8D,
      CHR 0xE6, CHR 0x96, CHR 0x9C, CHR 0xE6, CHR 0x9D, CHR 0xA0] @ '': ''"

definition msg_dest_leading_slash :: string where
  "msg_dest_leading_slash =
     [CHR 0xE7, CHR 0x9B, CHR 0xAE, CHR 0xE6, CHR 0xA0, CHR 0x87, CHR 0xE8, CHR 0xB7, CHR 0xAF,
      CHR 0xE5, CHR 0xBE, CHR 0x84, CHR 0xE4, CHR 0xB8, CHR 0x8D, CHR 0xE8, CHR 0x83, CHR 0xBD,
      CHR 0xE4, CHR 0xBB, CHR 0xA5] @ ''/''
     @ [CHR 0xE5, CHR 0xBC, CHR 0x80, CHR 0xE5, CHR 0xA4, CHR 0xB4] @ '': ''"

definition msg_pattern_required :: string where
  "msg_pattern_required =
     ''PATTERN'' @ [CHR 0xE7, CHR 0xB1, CHR 0xBB, CHR 0xE5, CHR 0x9E, CHR 0x8B, CHR 0xE5, CHR 0xBF,
      CHR 0x85, CHR 0xE9, CHR 0xA1, CHR 0xBB, CHR 0xE6, CHR 0x8C, CHR 0x87, CHR 0xE5, CHR 0xAE,
      CHR 0x9A] @ ''pattern'' @ [CHR 0xE5, CHR 0x8F, CHR 0x82, CHR 0xE6, CHR 0x95, CHR 0xB0]"

text \<open>\<open>not self.pattern\<close>: the pattern is \<open>None\<close> or the empty string.\<close>

definition pattern_missing :: "string option \<Rightarrow> bool" where
  "pattern_missing p = (case p of None \<Rightarrow> True | Some s \<Rightarrow> s = [])"

text \<open>
  \<open>EmbeddedFile.validate\<close>. The file system is a parameter: \<open>path_exists p\<close> is what
  \<open>os.path.exists(p)\<close> answers. The checks run in the source's order and the first that
  fails returns.
\<close>

definition validate :: "(string \<Rightarrow> bool) \<Rightarrow> EmbeddedFile \<Rightarrow> bool \<times> string" where
  "validate path_exists f =
     (if \<not> path_exists (source_path f) then (False, msg_source_missing @ source_path f)
      else if py_in [CHR 0x5C] (destination_path f)
        then (False, msg_dest_backslash @ destination_path f)
      else if startswith (destination_path f) ''/''
        then (False, msg_dest_leading_slash @ destination_path f)
      else if file_type f = PATTERN \<and> pattern_missing (pattern f)
        then (False, msg_pattern_required)
      else (True, []))"

section \<open>Configuration documents (OmegaConf)\<close>

text \<open>
  The configuration is an OmegaConf document: a tree of mappings and lists with scalars
  at the leaves. A mapping keeps its keys in the order in which they were stored, and the
  command compiler emits flags in that order, so a mapping is an association list.
  Keys are strings. Floating-point scalars and the marker \<open>???\<close> of a mandatory
  value are left out of the model: documents are taken to hold none of them. A string
  is stored as it is written; the functions of this section hand it out as it is
  stored, which is what OmegaConf does with a string that holds no interpolation
  \<open>${...}\<close>. The resolution of interpolations is modelled where the command compiler
  reads the document, in the section on the environment.
\<close>

datatype cval =
    VNone
  | VBool bool
  | VInt int
  | VStr string
  | VList "cval list"
  | VDict "(string \<times> cval) list"

type_synonym doc = "(string \<times> cval) list"

text \<open>
  What the program can raise. \<open>Unmodelled\<close> marks the behaviour of the library that this
  model does not follow (a key path that runs through a list, the merge of a mapping into
  a mapping, the text of a nested container): there the model says nothing
  about the program.
\<close>

datatype error =
    LoadError
  | OmegaConfError
  | PyTypeError
  | PyAttributeError
  | Unmodelled

text \<open>Python's truth value of a document value (\<open>if value:\<close>, \<open>not value\<close>).\<close>

fun truthy :: "cval \<Rightarrow> bool" where
  "truthy VNone = False"
| "truthy (VBool b) = b"
| "truthy (VInt n) = (n \<noteq> 0)"
| "truthy (VStr s) = (s \<noteq> [])"
| "truthy (VList xs) = (xs \<noteq> [])"
| "truthy (VDict kvs) = (kvs \<noteq> [])"

text \<open>
  \<open>s.split(c)\<close> for a separator of one character, and the key path of a dotted key.
  OmegaConf also reads brackets (\<open>a[b]\<close>) and gives a leading dot a meaning of its own;
  a key with a bracket or with an empty component is outside the model.
\<close>

fun split_on :: "char \<Rightarrow> string \<Rightarrow> string list" where
  "split_on c [] = [[]]"
| "split_on c (x # xs) =
     (if x = c then [] # split_on c xs
      else (case split_on c xs of [] \<Rightarrow> [[x]] | w # ws \<Rightarrow> (x # w) # ws))"

definition split_key :: "string \<Rightarrow> error + string list" where
  "split_key key =
     (if CHR ''['' \<in> set key \<or> CHR '']'' \<in> set key \<or> [] \<in> set (split_on CHR ''.'' key)
      then Inl Unmodelled else Inr (split_on CHR ''.'' key))"

text \<open>
  The value stored under the last key of \<open>OmegaConf.update\<close> (\<open>merge=True\<close>, the default):
  a list stored over a list replaces it, a container stored over a container of the other
  kind is a type error of the library, and anything stored where no container stands is
  stored as it is.
\<close>

fun assign :: "cval option \<Rightarrow> cval \<Rightarrow> error + cval" where
  "assign (Some (VDict old)) (VDict new) = Inl Unmodelled"
| "assign (Some (VList old)) (VDict new) = Inl OmegaConfError"
| "assign (Some (VDict old)) (VList new) = Inl OmegaConfError"
| "assign old new = Inr new"

text \<open>
  \<open>OmegaConf.update\<close> along a key path: every key but the last selects a child mapping,
  and a child that is missing or a scalar is replaced by an empty mapping first; the
  last key stores the value, in place when the key is there and at the end otherwise.
\<close>

fun update_path :: "string list \<Rightarrow> cval \<Rightarrow> doc \<Rightarrow> error + doc" where
  "update_path [] v d = Inl Unmodelled"
| "update_path [k] v d =
     (case assign (map_of d k) v of
        Inl e \<Rightarrow> Inl e
      | Inr v' \<Rightarrow> Inr (AList.update k v' d))"
| "update_path (k # ks) v d =
     (case map_of d k of
        Some (VList xs) \<Rightarrow> Inl Unmodelled
      | Some (VDict sub) \<Rightarrow>
          (case update_path ks v sub of
             Inl e \<Rightarrow> Inl e
           | Inr sub' \<Rightarrow> Inr (AList.update k (VDict sub') d))
      | _ \<Rightarrow>
          (case update_path ks v [] of
             Inl e \<Rightarrow> Inl e
           | Inr sub' \<Rightarrow> Inr (AList.update k (VDict sub') d)))"

definition omega_update :: "doc \<Rightarrow> string \<Rightarrow> cval \<Rightarrow> error + doc" where
  "omega_update d key v =
     (case split_key key of Inl e \<Rightarrow> Inl e | Inr path \<Rightarrow> update_path path v d)"

text \<open>
  \<open>OmegaConf.select\<close> along a key path: \<open>None\<close> when a key is missing on the way.
\<close>

fun select_path :: "string list \<Rightarrow> doc \<Rightarrow> error + cval" where
  "select_path [] d = Inl Unmodelled"
| "select_path [k] d = (case map_of d k of None \<Rightarrow> Inr VNone | Some v \<Rightarrow> Inr v)"
| "select_path (k # ks) d =
     (case map_of d k of
        None \<Rightarrow> Inr VNone
      | Some VNone \<Rightarrow> Inr VNone
      | Some (VDict sub) \<Rightarrow> select_path ks sub
      | _ \<Rightarrow> Inl Unmodelled)"

definition omega_select :: "doc \<Rightarrow> string \<Rightarrow> error + cval" where
  "omega_select d key =
     (case split_key key of Inl e \<Rightarrow> Inl e | Inr path \<Rightarrow> select_path path d)"

section \<open>The configuration store (\<open>core/config.py\<close>)\<close>

text \<open>
  The state of the \<open>Config\<close> object: the document in memory (\<open>None\<close> before the first
  load and after \<open>delete\<close>), the four runtime values that are never saved, and the
  document in the configuration file (\<open>None\<close> when \<open>OmegaConf.load\<close> would raise: the
  file is missing or does not parse). Writing the file is taken to succeed.
\<close>

record Config =
  config :: "doc option"
  deleted :: bool
  entry_file :: string
  output_dir :: string
  output_filename :: string
  icon_path :: string
  config_file :: "doc option"

definition load :: "Config \<Rightarrow> error + Config" where
  "load st =
     (case config_file st of
        None \<Rightarrow> Inl LoadError
      | Some d \<Rightarrow> Inr (st\<lparr>config := Some d\<rparr>))"

text \<open>\<open>if self._config is None: self.load()\<close>, with the document that is then in memory.\<close>

definition ensure_loaded :: "Config \<Rightarrow> error + (doc \<times> Config)" where
  "ensure_loaded st =
     (case config st of
        Some d \<Rightarrow> Inr (d, st)
      | None \<Rightarrow>
          (case config_file st of
             None \<Rightarrow> Inl LoadError
           | Some d \<Rightarrow> Inr (d, st\<lparr>config := Some d\<rparr>)))"

text \<open>The first loop of \<open>update\<close>: the keyword arguments are stored in their order.\<close>

fun update_each :: "(string \<times> cval) list \<Rightarrow> doc \<Rightarrow> error + doc" where
  "update_each [] d = Inr d"
| "update_each ((key, v) # kwargs) d =
     (case omega_update d key v of
        Inl e \<Rightarrow> Inl e
      | Inr d' \<Rightarrow> update_each kwargs d')"

text \<open>
  The second loop: \<open>standalone_key\<close> is the last key that contains \<open>standalone\<close>, and
  \<open>onefile_key\<close> the last key that contains \<open>onefile\<close> and does not contain
  \<open>standalone\<close>.
\<close>

fun scan_mode_keys ::
  "string list \<Rightarrow> string option \<times> string option \<Rightarrow> string option \<times> string option" where
  "scan_mode_keys [] acc = acc"
| "scan_mode_keys (key # keys) (standalone_key, onefile_key) =
     scan_mode_keys keys
       (if py_in ''standalone'' key then (Some key, onefile_key)
        else if py_in ''onefile'' key then (standalone_key, Some key)
        else (standalone_key, onefile_key))"

text \<open>
  One direction of the mutual exclusion: when \<open>this_key\<close> was given the value \<open>True\<close>,
  the other flag is stored as \<open>False\<close>, under its own key when the call also named it
  and under \<open>default_key\<close> otherwise, there only when it holds a true value now.
\<close>

definition exclude_other ::
  "(string \<times> cval) list \<Rightarrow> string option \<Rightarrow> string option \<Rightarrow> string \<Rightarrow> doc \<Rightarrow> error + doc" where
  "exclude_other kwargs this_key other_key default_key d =
     (case this_key of
        None \<Rightarrow> Inr d
      | Some k \<Rightarrow>
          if map_of kwargs k = Some (VBool True) then
            (case other_key of
               Some k' \<Rightarrow> omega_update d k' (VBool False)
             | None \<Rightarrow>
                 (case omega_select d default_key of
                    Inl e \<Rightarrow> Inl e
                  | Inr v \<Rightarrow> if truthy v then omega_update d default_key (VBool False) else Inr d))
          else Inr d)"

text \<open>
  \<open>Config.update\<close>. The keyword arguments are an association list with distinct keys, in
  the order of the call. An exception leaves the call at once; the model then gives the
  error and not the state, which may hold a part of the update.
\<close>

definition update :: "(string \<times> cval) list \<Rightarrow> Config \<Rightarrow> error + Config" where
  "update kwargs st =
     (case ensure_loaded st of
        Inl e \<Rightarrow> Inl e
      | Inr (d0, st1) \<Rightarrow>
          (case update_each kwargs d0 of
             Inl e \<Rightarrow> Inl e
           | Inr d1 \<Rightarrow>
               (case scan_mode_keys (map fst kwargs) (None, None) of
                  (standalone_key, onefile_key) \<Rightarrow>
                    (case exclude_other kwargs standalone_key onefile_key ''nuitka.onefile'' d1 of
                       Inl e \<Rightarrow> Inl e
                     | Inr d2 \<Rightarrow>
                         (case exclude_other kwargs onefile_key standalone_key
                                 ''nuitka.standalone'' d2 of
                            Inl e \<Rightarrow> Inl e
                          | Inr d3 \<Rightarrow> Inr (st1\<lparr>config := Some d3, config_file := Some d3\<rparr>))))))"

text \<open>\<open>Config.set\<close> is \<open>update\<close> with one keyword argument.\<close>

definition set_value :: "string \<Rightarrow> cval \<Rightarrow> Config \<Rightarrow> error + Config" where
  "set_value key v st = update [(key, v)] st"

text \<open>
  \<open>Config.temp\<close>: the four runtime values are kept in the object and never reach the
  document; every other key is ignored.
\<close>

fun temp_each :: "(string \<times> string) list \<Rightarrow> Config \<Rightarrow> Config" where
  "temp_each [] st = st"
| "temp_each ((key, v) # kwargs) st =
     temp_each kwargs
       (if key = ''nuitka.entry-file'' then st\<lparr>entry_file := v\<rparr>
        else if key = ''nuitka.output-dir'' then st\<lparr>output_dir := v\<rparr>
        else if key = ''nuitka.output-filename'' then st\<lparr>output_filename := v\<rparr>
        else if key = ''nuitka.windows-icon-from-ico'' then st\<lparr>icon_path := v\<rparr>
        else st)"

definition temp :: "(string \<times> string) list \<Rightarrow> Config \<Rightarrow> error + Config" where
  "temp kwargs st =
     (case ensure_loaded st of
        Inl e \<Rightarrow> Inl e
      | Inr (d, st1) \<Rightarrow> Inr (temp_each kwargs st1))"

text \<open>
  The object right after its construction on a configuration file that holds the
  document \<open>d\<close>: the document is loaded, the runtime values are empty.
\<close>

definition init :: "doc \<Rightarrow> Config" where
  "init d = \<lparr>config = Some d, deleted = False, entry_file = [], output_dir = [],
             output_filename = [], icon_path = [], config_file = Some d\<rparr>"

text \<open>
  Two readings of a flag of the document, both through \<open>OmegaConf.select\<close> as the
  program reads it: the flag holds a false value (\<open>None\<close>, \<open>False\<close>, zero, an empty
  string or container; a missing key reads as \<open>None\<close>), and the flag is \<open>True\<close>.
\<close>

definition reads_false :: "doc \<Rightarrow> string \<Rightarrow> bool" where
  "reads_false d key = (case omega_select d key of Inl e \<Rightarrow> False | Inr v \<Rightarrow> \<not> truthy v)"

definition flag_is_true :: "doc \<Rightarrow> string \<Rightarrow> bool" where
  "flag_is_true d key = (omega_select d key = Inr (VBool True))"

text \<open>
  The options of a document: the content of its \<open>nuitka\<close> section, which is empty when
  the section is missing or \<open>None\<close>; there are none when \<open>nuitka\<close> holds a scalar or a
  list.
\<close>

definition nuitka_section :: "doc \<Rightarrow> doc option" where
  "nuitka_section d =
     (case map_of d ''nuitka'' of
        None \<Rightarrow> Some []
      | Some VNone \<Rightarrow> Some []
      | Some (VDict sub) \<Rightarrow> Some sub
      | Some _ \<Rightarrow> None)"

section \<open>The command compiler (\<open>Config.to_command\<close>)\<close>

text \<open>
  \<open>Config._quote_path\<close>: backslashes become forward slashes, then every double quote
  gets a backslash in front of it. As its docstring says, the method adds no quotes
  around the value.
\<close>

definition quote_path :: "string \<Rightarrow> string" where
  "quote_path path =
     (let normalized_path = replace_char (CHR 0x5C) ''/'' path in
      if CHR 0x22 \<in> set normalized_path
      then replace_char (CHR 0x22) [CHR 0x5C, CHR 0x22] normalized_path
      else normalized_path)"

definition SPECIAL_KEYS :: "string set" where
  "SPECIAL_KEYS = {''enabled-plugins'', ''disabled-plugins'', ''embedded-files''}"

text \<open>
  The text of a value inside an f-string (\<open>f"{item}"\<close>). The text of a nested list or
  mapping is not modelled.
\<close>

fun fmt_value :: "cval \<Rightarrow> error + string" where
  "fmt_value VNone = Inr ''None''"
| "fmt_value (VBool b) = Inr (if b then ''True'' else ''False'')"
| "fmt_value (VInt n) = Inr (py_str_int n)"
| "fmt_value (VStr s) = Inr s"
| "fmt_value (VList xs) = Inl Unmodelled"
| "fmt_value (VDict kvs) = Inl Unmodelled"

text \<open>
  \<open>self._config.get("python", "").get("path", "")\<close>. Without a \<open>python\<close> section the first
  \<open>get\<close> gives the default, a string, which has no \<open>get\<close>; the same holds for a section
  that is a scalar. A list refuses the key.
\<close>

definition python_path :: "doc \<Rightarrow> error + cval" where
  "python_path d =
     (case map_of d ''python'' of
        None \<Rightarrow> Inl PyAttributeError
      | Some (VDict sect) \<Rightarrow>
          (case map_of sect ''path'' of None \<Rightarrow> Inr (VStr []) | Some v \<Rightarrow> Inr v)
      | Some (VList xs) \<Rightarrow> Inl OmegaConfError
      | Some _ \<Rightarrow> Inl PyAttributeError)"

text \<open>
  The flags of the runtime values, each only when the value is not empty; the output
  file name gets the suffix \<open>.exe\<close> unless it ends with it.
\<close>

definition valued_flag :: "string \<Rightarrow> string \<Rightarrow> string" where
  "valued_flag key v = ''--'' @ key @ ''='' @ quote_path v"

definition runtime_flags :: "Config \<Rightarrow> string list" where
  "runtime_flags st =
     (if output_dir st \<noteq> [] then [valued_flag ''output-dir'' (output_dir st)] else [])
     @ (if output_filename st \<noteq> []
        then [valued_flag ''output-filename''
                (if endswith (output_filename st) ''.exe'' then output_filename st
                 else output_filename st @ ''.exe'')]
        else [])
     @ (if icon_path st \<noteq> [] then [valued_flag ''windows-icon-from-ico'' (icon_path st)] else [])"

text \<open>
  \<open>nuitka = self._config.get("nuitka", {})\<close>, then \<open>if not nuitka: nuitka = {}\<close>, then
  \<open>nuitka.items()\<close>: only a mapping has items.
\<close>

definition nuitka_items :: "doc \<Rightarrow> error + doc" where
  "nuitka_items d =
     (let nuitka = (case map_of d ''nuitka'' of None \<Rightarrow> VDict [] | Some v \<Rightarrow> v) in
      if \<not> truthy nuitka then Inr []
      else (case nuitka of VDict kvs \<Rightarrow> Inr kvs | _ \<Rightarrow> Inl PyAttributeError))"

text \<open>
  \<open>value is None or value in ["auto", "none", "", 0, False, "False", "false"]\<close>, on a
  scalar. The comparison is Python's \<open>==\<close>: \<open>False\<close> equals \<open>0\<close>, and strings are
  compared exactly.
\<close>

fun is_sentinel :: "cval \<Rightarrow> bool" where
  "is_sentinel VNone = True"
| "is_sentinel (VStr s) = (s \<in> {''auto'', ''none'', [], ''False'', ''false''})"
| "is_sentinel (VInt n) = (n = 0)"
| "is_sentinel (VBool b) = (\<not> b)"
| "is_sentinel (VList xs) = False"
| "is_sentinel (VDict kvs) = False"

text \<open>A list value: one flag for each item that is neither \<open>None\<close> nor the empty string.\<close>

fun list_flags :: "string \<Rightarrow> cval list \<Rightarrow> error + string list" where
  "list_flags key [] = Inr []"
| "list_flags key (item # items) =
     (if item \<noteq> VNone \<and> item \<noteq> VStr []
      then (case fmt_value item of
              Inl e \<Rightarrow> Inl e
            | Inr s \<Rightarrow>
                (case list_flags key items of
                   Inl e \<Rightarrow> Inl e
                 | Inr flags \<Rightarrow> Inr ((''--'' @ key @ ''='' @ s) # flags)))
      else list_flags key items)"

text \<open>
  One round of the loop over \<open>nuitka.items()\<close>, in the order of the source: the special
  keys are skipped; an empty container is skipped, a list gives its items and a mapping
  nothing; a sentinel is skipped; \<open>True\<close> gives the bare flag, a string the flag with
  its value passed through \<open>_quote_path\<close>, a number the flag with its digits.
\<close>

fun option_flags :: "string \<times> cval \<Rightarrow> error + string list" where
  "option_flags (key, value) =
     (if key \<in> SPECIAL_KEYS then Inr []
      else (case value of
              VList xs \<Rightarrow> (if xs = [] then Inr [] else list_flags key xs)
            | VDict kvs \<Rightarrow> Inr []
            | _ \<Rightarrow>
                if is_sentinel value then Inr []
                else (case value of
                        VBool b \<Rightarrow> Inr (if b then [''--'' @ key] else [])
                      | VStr s \<Rightarrow> Inr [valued_flag key s]
                      | VInt n \<Rightarrow> Inr [''--'' @ key @ ''='' @ py_str_int n]
                      | _ \<Rightarrow> Inr [])))"

fun options_flags :: "doc \<Rightarrow> error + string list" where
  "options_flags [] = Inr []"
| "options_flags (kv # kvs) =
     (case option_flags kv of
        Inl e \<Rightarrow> Inl e
      | Inr flags \<Rightarrow>
          (case options_flags kvs of
             Inl e \<Rightarrow> Inl e
           | Inr rest \<Rightarrow> Inr (flags @ rest)))"

text \<open>
  \<open>for x in value\<close>: the items of a list, the keys of a mapping, the characters of a
  string (modelled for ASCII strings, where a character is a byte); a number, a truth
  value and \<open>None\<close> cannot be iterated.
\<close>

fun iter_values :: "cval \<Rightarrow> error + cval list" where
  "iter_values (VList xs) = Inr xs"
| "iter_values (VDict kvs) = Inr (map (\<lambda>kv. VStr (fst kv)) kvs)"
| "iter_values (VStr s) =
     (if \<forall>c \<in> set s. of_char c < (128::nat) then Inr (map (\<lambda>c. VStr [c]) s) else Inl Unmodelled)"
| "iter_values v = Inl PyTypeError"

text \<open>
  \<open>nuitka.get(key, [])\<close> followed by \<open>if plugins: for plugin in plugins\<close>, with one flag
  \<open>prefix + f"{plugin}"\<close> for each.
\<close>

fun fmt_each :: "string \<Rightarrow> cval list \<Rightarrow> error + string list" where
  "fmt_each pre [] = Inr []"
| "fmt_each pre (x # xs) =
     (case fmt_value x of
        Inl e \<Rightarrow> Inl e
      | Inr s \<Rightarrow>
          (case fmt_each pre xs of
             Inl e \<Rightarrow> Inl e
           | Inr flags \<Rightarrow> Inr ((pre @ s) # flags)))"

definition plugin_flags :: "string \<Rightarrow> string \<Rightarrow> doc \<Rightarrow> error + string list" where
  "plugin_flags pre key nuitka =
     (let plugins = (case map_of nuitka key of None \<Rightarrow> VList [] | Some v \<Rightarrow> v) in
      if truthy plugins
      then (case iter_values plugins of Inl e \<Rightarrow> Inl e | Inr xs \<Rightarrow> fmt_each pre xs)
      else Inr [])"

text \<open>
  The embedded files. The source emits a flag for an entry only when
  \<open>isinstance(file_info, dict)\<close>. OmegaConf keeps every mapping of a document as a
  \<open>DictConfig\<close>, which is not a subclass of \<open>dict\<close> (the loop over the options tests for
  \<open>dict\<close> and \<open>DictConfig\<close> separately for that reason), so the test fails on every
  entry that comes from the document, and the entries are walked without output.
\<close>

definition is_plain_dict :: "cval \<Rightarrow> bool" where
  "is_plain_dict v = False"

definition embedded_flag :: "cval \<Rightarrow> string list" where
  "embedded_flag file_info =
     (if is_plain_dict file_info then
        (case file_info of
           VDict entry \<Rightarrow>
             (case (map_of entry ''source-path'', map_of entry ''destination-path'') of
                (Some (VStr source), Some (VStr dest)) \<Rightarrow>
                  if source \<noteq> [] \<and> dest \<noteq> []
                  then [''--include-data-files='' @ quote_path source @ ''='' @ dest]
                  else []
              | _ \<Rightarrow> [])
         | _ \<Rightarrow> [])
      else [])"

definition embedded_flags :: "doc \<Rightarrow> error + string list" where
  "embedded_flags nuitka =
     (let embedded_files = (case map_of nuitka ''embedded-files'' of None \<Rightarrow> VList [] | Some v \<Rightarrow> v) in
      if truthy embedded_files
      then (case iter_values embedded_files of
              Inl e \<Rightarrow> Inl e
            | Inr xs \<Rightarrow> Inr (concat (map embedded_flag xs)))
      else Inr [])"

text \<open>
  The parts of the command for a document \<open>d\<close> and the runtime values of \<open>st\<close>, in the
  order in which the source appends them. The interpreter is the first part; the join
  at the end fails unless it is a string.
\<close>

definition command_parts :: "doc \<Rightarrow> Config \<Rightarrow> error + string list" where
  "command_parts d st =
     (case python_path d of
        Inl e \<Rightarrow> Inl e
      | Inr python \<Rightarrow>
     (case nuitka_items d of
        Inl e \<Rightarrow> Inl e
      | Inr nuitka \<Rightarrow>
     (case options_flags nuitka of
        Inl e \<Rightarrow> Inl e
      | Inr options \<Rightarrow>
     (case plugin_flags ''--enable-plugin='' ''enabled-plugins'' nuitka of
        Inl e \<Rightarrow> Inl e
      | Inr enabled \<Rightarrow>
     (case plugin_flags ''--disable-plugin='' ''disabled-plugins'' nuitka of
        Inl e \<Rightarrow> Inl e
      | Inr disabled \<Rightarrow>
     (case embedded_flags nuitka of
        Inl e \<Rightarrow> Inl e
      | Inr embedded \<Rightarrow>
     (case python of
        VStr interpreter \<Rightarrow>
          Inr ([interpreter, ''-m'', ''nuitka''] @ runtime_flags st @ options @ enabled
               @ disabled @ embedded
               @ (if entry_file st \<noteq> [] then [quote_path (entry_file st)] else []))
      | _ \<Rightarrow> Inl PyTypeError)))))))"

text \<open>
  \<open>Config.to_command\<close>: the document is loaded when none is in memory, and the parts
  are joined by single spaces. The result is the command with the state of the object
  after the call.
\<close>

definition to_command :: "Config \<Rightarrow> error + (string \<times> Config)" where
  "to_command st =
     (case ensure_loaded st of
        Inl e \<Rightarrow> Inl e
      | Inr (d, st1) \<Rightarrow>
          (case command_parts d st1 of
             Inl e \<Rightarrow> Inl e
           | Inr parts \<Rightarrow> Inr (join '' '' parts, st1)))"

section \<open>Splitting a command into arguments (\<open>NuitkaRunner._parse_command\<close>)\<close>

text \<open>
  \<open>shlex.split(command, posix=False)\<close>, as the lexer of the standard library runs with
  \<open>whitespace_split\<close> set, no comment characters and no punctuation characters. Its
  states are: between tokens, inside a word, inside a quotation that a quote character
  opened at the start of a token. Outside POSIX mode the lexer knows no escape
  character, a quote inside a word is an ordinary character, the quotes of a quotation
  stay in the token, and the closing quote ends the token. The end of the input inside
  a quotation raises \<open>ValueError\<close> (here \<open>None\<close>).
\<close>

datatype lex_state = Blank | Word | Quoted char

fun shlex_run :: "lex_state \<Rightarrow> string \<Rightarrow> string \<Rightarrow> string list option" where
  "shlex_run Blank token [] = Some []"
| "shlex_run Blank token (c # cs) =
     (if c \<in> shlex_whitespace then shlex_run Blank token cs
      else if c = CHR 0x27 \<or> c = CHR 0x22 then shlex_run (Quoted c) [c] cs
      else shlex_run Word [c] cs)"
| "shlex_run (Quoted q) token [] = None"
| "shlex_run (Quoted q) token (c # cs) =
     (if c = q then map_option (\<lambda>tokens. (token @ [c]) # tokens) (shlex_run Blank [] cs)
      else shlex_run (Quoted q) (token @ [c]) cs)"
| "shlex_run Word token [] = Some [token]"
| "shlex_run Word token (c # cs) =
     (if c \<in> shlex_whitespace then map_option (\<lambda>tokens. token # tokens) (shlex_run Blank [] cs)
      else shlex_run Word (token @ [c]) cs)"

definition shlex_split :: "string \<Rightarrow> string list option" where
  "shlex_split command = shlex_run Blank [] command"

text \<open>
  \<open>_parse_command\<close>: the split of \<open>shlex\<close>, and \<open>command.split()\<close> when that raises.
\<close>

definition parse_command :: "string \<Rightarrow> string list" where
  "parse_command command =
     (case shlex_split command of Some tokens \<Rightarrow> tokens | None \<Rightarrow> py_split command)"

section \<open>Interpolations and the environment\<close>

text \<open>
  OmegaConf stores a string as it is written and resolves it each time it is read: a
  string that contains \<open>${\<close> is an interpolation, and the interpolation
  \<open>${oc.env:NAME}\<close> stands for the value that the environment variable \<open>NAME\<close> has at
  the moment of the read. This is the one way in which something outside the object
  reaches \<open>to_command\<close>: the method reads no clock, it walks the document in the order
  in which the keys are stored, and it uses the set \<open>SPECIAL_KEYS\<close> only to test
  membership. The environment is therefore an input of the compiler here, as the
  values of its variables.
\<close>

type_synonym environ = "string \<Rightarrow> string option"

definition interpolated :: "string \<Rightarrow> bool" where
  "interpolated s = py_in ''${'' s"

definition is_interpolation :: "cval \<Rightarrow> bool" where
  "is_interpolation v = (case v of VStr s \<Rightarrow> interpolated s | _ \<Rightarrow> False)"

text \<open>
  The name in \<open>${oc.env:NAME}\<close>, for a string that is this interpolation and nothing
  else, with a name of ASCII letters, digits and underscores and no default value.
\<close>

definition is_name_char :: "char \<Rightarrow> bool" where
  "is_name_char c =
     (let n = (of_char c :: nat) in
      (65 \<le> n \<and> n \<le> 90) \<or> (97 \<le> n \<and> n \<le> 122) \<or> (48 \<le> n \<and> n \<le> 57) \<or> n = 95)"

definition env_name :: "string \<Rightarrow> string option" where
  "env_name s =
     (if startswith s ''${oc.env:'' \<and> endswith s ''}'' \<and> 10 < length s
      then (let name = take (length s - 10) (drop 9 s) in
            if list_all is_name_char name then Some name else None)
      else None)"

text \<open>
  Reading a string. A variable that is not set makes the read raise. Every other
  interpolation (a reference to another node, another resolver, a default value, an
  escape, text around the braces) and a value of the variable that itself contains
  \<open>${\<close> are not modelled.
\<close>

definition resolve_str :: "environ \<Rightarrow> string \<Rightarrow> error + string" where
  "resolve_str env s =
     (if \<not> interpolated s then Inr s
      else (case env_name s of
              None \<Rightarrow> Inl Unmodelled
            | Some name \<Rightarrow>
                (case env name of
                   None \<Rightarrow> Inl OmegaConfError
                 | Some v \<Rightarrow> if interpolated v then Inl Unmodelled else Inr v)))"

text \<open>
  Reading a value of a mapping (\<open>get\<close>, \<open>items\<close>): a string is resolved, a list or a
  mapping is handed out as the container it is, with its content unread.
\<close>

fun resolve_value :: "environ \<Rightarrow> cval \<Rightarrow> error + cval" where
  "resolve_value env (VStr s) =
     (case resolve_str env s of Inl e \<Rightarrow> Inl e | Inr s' \<Rightarrow> Inr (VStr s'))"
| "resolve_value env v = Inr v"

text \<open>\<open>nuitka.items()\<close>: every value of the section is read, in the order of the keys.\<close>

fun resolve_items :: "environ \<Rightarrow> doc \<Rightarrow> error + doc" where
  "resolve_items env [] = Inr []"
| "resolve_items env ((key, v) # kvs) =
     (case resolve_value env v of
        Inl e \<Rightarrow> Inl e
      | Inr v' \<Rightarrow>
          (case resolve_items env kvs of
             Inl e \<Rightarrow> Inl e
           | Inr kvs' \<Rightarrow> Inr ((key, v') # kvs')))"

text \<open>
  \<open>to_command\<close> reads the value of \<open>python\<close> and in it the value of \<open>path\<close>, the value
  of \<open>nuitka\<close> and every value of that section, and the items of every list among
  these when it walks the list. Resolution is modelled for \<open>path\<close> and for the values
  of the section. An interpolation in one of the other places that are read (the value
  of \<open>python\<close> or of \<open>nuitka\<close> itself, an item of a list of the section) is not
  modelled.
\<close>

definition list_holds_interpolation :: "cval \<Rightarrow> bool" where
  "list_holds_interpolation v = (case v of VList xs \<Rightarrow> list_ex is_interpolation xs | _ \<Rightarrow> False)"

definition unmodelled_interpolation :: "doc \<Rightarrow> bool" where
  "unmodelled_interpolation d =
     ((case map_of d ''python'' of None \<Rightarrow> False | Some v \<Rightarrow> is_interpolation v)
      \<or> (case map_of d ''nuitka'' of
            None \<Rightarrow> False
          | Some (VDict kvs) \<Rightarrow> list_ex (\<lambda>kv. list_holds_interpolation (snd kv)) kvs
          | Some v \<Rightarrow> is_interpolation v))"

text \<open>
  \<open>Config.to_command\<close> in the environment \<open>env\<close>. The reads are those of the source in
  its order: the interpreter path, then the section, whose values \<open>items\<close> resolves
  before the loop over them starts. The command is then compiled from the values
  that were read, by the compiler of the previous section.
\<close>

definition to_command_in :: "environ \<Rightarrow> Config \<Rightarrow> error + (string \<times> Config)" where
  "to_command_in env st =
     (case ensure_loaded st of
        Inl e \<Rightarrow> Inl e
      | Inr (d, st1) \<Rightarrow>
          if unmodelled_interpolation d then Inl Unmodelled
          else
     (case python_path d of
        Inl e \<Rightarrow> Inl e
      | Inr python \<Rightarrow>
     (case resolve_value env python of
        Inl e \<Rightarrow> Inl e
      | Inr python' \<Rightarrow>
     (case nuitka_items d of
        Inl e \<Rightarrow> Inl e
      | Inr nuitka \<Rightarrow>
     (case resolve_items env nuitka of
        Inl e \<Rightarrow> Inl e
      | Inr nuitka' \<Rightarrow>
     (case command_parts [(''python'', VDict [(''path'', python')]),
                          (''nuitka'', VDict nuitka')] st1 of
        Inl e \<Rightarrow> Inl e
      | Inr parts \<Rightarrow> Inr (join '' '' parts, st1)))))))"

text \<open>
  A document in which \<open>to_command\<close> reads no interpolation: none in the places above,
  none as the interpreter path, none as a value of the \<open>nuitka\<close> section.
\<close>

definition reads_no_interpolation :: "doc \<Rightarrow> bool" where
  "reads_no_interpolation d =
     (\<not> unmodelled_interpolation d
      \<and> (case python_path d of Inl e \<Rightarrow> True | Inr python \<Rightarrow> \<not> is_interpolation python)
      \<and> (case nuitka_items d of
            Inl e \<Rightarrow> True
          | Inr nuitka \<Rightarrow> list_all (\<lambda>kv. \<not> is_interpolation (snd kv)) nuitka))"

section \<open>Build tasks (\<open>models/build_task.py\<close>)\<close>

text \<open>
  A time (\<open>datetime\<close>) is a natural number; how \<open>strftime\<close> renders it is a parameter
  of the world below. The fields of a task that share their names with the runtime
  values of the configuration store carry the prefix \<open>task_\<close>.
\<close>

datatype TaskStatus = PENDING | RUNNING | COMPLETED | FAILED

record LogEntry =
  timestamp :: nat
  level :: string
  message :: string
  source :: string

record BuildTask =
  task_id :: string
  task_entry_file :: string
  task_output_dir :: string
  task_output_filename :: string
  task_icon_path :: "string option"
  command :: string
  log_file_path :: "string option"
  status :: TaskStatus
  progress :: int
  start_time :: "nat option"
  end_time :: "nat option"
  exit_code :: "int option"
  logs :: "LogEntry list"

section \<open>The process runner (\<open>core/nuitka_runner.py\<close>)\<close>

text \<open>
  The runner object together with what it does to the world: \<open>process\<close> is the
  \<open>Popen\<close> object (by its process id), \<open>running\<close> the attribute \<open>_is_running\<close>,
  \<open>log_file\<close> says whether \<open>_log_file\<close> is an open file, \<open>log_written\<close> holds the lines
  of the log file on disk, \<open>signals\<close> the signals emitted so far and \<open>os_actions\<close> the
  requests made to end the process. What is printed to the console is not modelled.
\<close>

datatype signal = build_finished int | build_failed string

datatype os_action = Taskkill nat | Terminate nat | Kill nat

record NuitkaRunner =
  task :: BuildTask
  process :: "nat option"
  running :: bool
  log_file :: bool
  log_written :: "string list"
  signals :: "signal list"
  os_actions :: "os_action list"

text \<open>
  What the world answers. \<open>open_log path\<close> is \<open>None\<close> when the directory and the log file
  can be created, and the text of the exception otherwise. \<open>spawn\<close> answers \<open>Popen\<close> for
  the argument list: the executable is not found (\<open>FileNotFoundError\<close>), another
  exception is raised, or the process starts with an id; then it writes its lines, each
  with the time at which it is read and as \<open>readline\<close> returns it, and either exits with
  a code or an exception breaks the reading or the wait. \<open>t_start\<close> is the time when the
  call begins and \<open>t_end\<close> the time when the process phase is over. For \<open>stop\<close>,
  \<open>win32\<close> is the platform, \<open>taskkill_raises\<close> says whether running \<open>taskkill\<close> raises, and
  \<open>terminate_outcome\<close> is what happens to \<open>terminate\<close> followed by the wait of three seconds.
\<close>

datatype proc_end = Exited int | Broke string

datatype spawn_outcome =
    Started nat "(nat \<times> string) list" proc_end
  | NotFound string
  | Refused string

datatype terminate_result = Stopped | TimedOut | TerminateFailed

record world =
  strftime :: "nat \<Rightarrow> string"
  open_log :: "string \<Rightarrow> string option"
  spawn :: "string list \<Rightarrow> spawn_outcome"
  t_start :: nat
  t_end :: nat
  win32 :: bool
  taskkill_raises :: bool
  terminate_outcome :: terminate_result

definition msg_start_time :: string where
  "msg_start_time =
     [CHR 0xE5, CHR 0xBC, CHR 0x80, CHR 0xE5, CHR 0xA7, CHR 0x8B, CHR 0xE6, CHR 0x97,
     CHR 0xB6, CHR 0xE9, CHR 0x97, CHR 0xB4] @ '': ''"

definition msg_command :: string where
  "msg_command =
     [CHR 0xE5, CHR 0x91, CHR 0xBD, CHR 0xE4, CHR 0xBB, CHR 0xA4] @ '': ''"

definition msg_log_create_failed :: string where
  "msg_log_create_failed =
     [CHR 0xE6, CHR 0x97, CHR 0xA0, CHR 0xE6, CHR 0xB3, CHR 0x95, CHR 0xE5, CHR 0x88,
     CHR 0x9B, CHR 0xE5, CHR 0xBB, CHR 0xBA, CHR 0xE6, CHR 0x97, CHR 0xA5, CHR 0xE5,
     CHR 0xBF, CHR 0x97, CHR 0xE6, CHR 0x96, CHR 0x87, CHR 0xE4, CHR 0xBB, CHR 0xB6]
     @ '': ''"

definition msg_build_succeeded :: string where
  "msg_build_succeeded =
     [CHR 0xE6, CHR 0x9E, CHR 0x84, CHR 0xE5, CHR 0xBB, CHR 0xBA, CHR 0xE6, CHR 0x88,
     CHR 0x90, CHR 0xE5, CHR 0x8A, CHR 0x9F] @ ''! '' @ [CHR 0xE9, CHR 0x80, CHR 0x80,
     CHR 0xE5, CHR 0x87, CHR 0xBA, CHR 0xE7, CHR 0xA0, CHR 0x81] @ '': ''"

definition msg_end_time :: string where
  "msg_end_time =
     [CHR 0xE7, CHR 0xBB, CHR 0x93, CHR 0xE6, CHR 0x9D, CHR 0x9F, CHR 0xE6, CHR 0x97,
     CHR 0xB6, CHR 0xE9, CHR 0x97, CHR 0xB4] @ '': ''"

definition msg_build_failed :: string where
  "msg_build_failed =
     [CHR 0xE6, CHR 0x9E, CHR 0x84, CHR 0xE5, CHR 0xBB, CHR 0xBA, CHR 0xE5, CHR 0xA4,
     CHR 0xB1, CHR 0xE8, CHR 0xB4, CHR 0xA5] @ '','' @ [CHR 0xE9, CHR 0x80, CHR 0x80,
     CHR 0xE5, CHR 0x87, CHR 0xBA, CHR 0xE7, CHR 0xA0, CHR 0x81] @ '': ''"

definition msg_nuitka_not_found :: string where
  "msg_nuitka_not_found =
     [CHR 0xE6, CHR 0x89, CHR 0xBE, CHR 0xE4, CHR 0xB8, CHR 0x8D, CHR 0xE5, CHR 0x88,
     CHR 0xB0] @ '' Nuitka '' @ [CHR 0xE7, CHR 0xA8, CHR 0x8B, CHR 0xE5, CHR 0xBA,
     CHR 0x8F] @ '': ''"

definition msg_error :: string where
  "msg_error =
     [CHR 0xE9, CHR 0x94, CHR 0x99, CHR 0xE8, CHR 0xAF, CHR 0xAF] @ '': ''"

definition msg_build_error :: string where
  "msg_build_error =
     [CHR 0xE6, CHR 0x9E, CHR 0x84, CHR 0xE5, CHR 0xBB, CHR 0xBA, CHR 0xE8, CHR 0xBF,
     CHR 0x87, CHR 0xE7, CHR 0xA8, CHR 0x8B, CHR 0xE5, CHR 0x87, CHR 0xBA, CHR 0xE9,
     CHR 0x94, CHR 0x99] @ '': ''"

definition msg_build_cancelled :: string where
  "msg_build_cancelled =
     [CHR 0xE6, CHR 0x9E, CHR 0x84, CHR 0xE5, CHR 0xBB, CHR 0xBA, CHR 0xE5, CHR 0xB7,
     CHR 0xB2, CHR 0xE5, CHR 0x8F, CHR 0x96, CHR 0xE6, CHR 0xB6, CHR 0x88]"

text \<open>\<open>s.rstrip(chars)\<close> and \<open>s.lower()\<close>, the latter on ASCII letters.\<close>

definition rstrip :: "char set \<Rightarrow> string \<Rightarrow> string" where
  "rstrip chars s = rev (dropWhile (\<lambda>c. c \<in> chars) (rev s))"

definition ascii_lower :: "char \<Rightarrow> char" where
  "ascii_lower c =
     (if (65::nat) \<le> of_char c \<and> of_char c \<le> (90::nat) then char_of (of_char c + (32::nat)) else c)"

definition lower :: "string \<Rightarrow> string" where
  "lower s = map ascii_lower s"

text \<open>
  \<open>_write_log\<close>: a line \<open>[time] [INFO] message\<close> is appended when the log file is open.
  \<open>t\<close> is the time that \<open>datetime.now()\<close> gives at the call.
\<close>

definition write_log :: "world \<Rightarrow> nat \<Rightarrow> string \<Rightarrow> NuitkaRunner \<Rightarrow> NuitkaRunner" where
  "write_log w t msg r =
     (if log_file r
      then r\<lparr>log_written := log_written r @ [''['' @ strftime w t @ ''] [INFO] '' @ msg]\<rparr>
      else r)"

definition close_log_file :: "NuitkaRunner \<Rightarrow> NuitkaRunner" where
  "close_log_file r = (if log_file r then r\<lparr>log_file := False\<rparr> else r)"

definition emit :: "signal \<Rightarrow> NuitkaRunner \<Rightarrow> NuitkaRunner" where
  "emit s r = r\<lparr>signals := signals r @ [s]\<rparr>"

text \<open>
  \<open>_parse_progress\<close>: the first keyword of the table, in the table's order, that occurs
  in the lowered line gives its value; otherwise the first place where digits are
  followed by a percent sign gives the number. Letters and digits are those of ASCII.
\<close>

definition progress_keywords :: "(string \<times> int) list" where
  "progress_keywords =
     [(''starting'', 5), (''parsing'', 10), (''importing'', 15), (''compiling'', 30),
      (''linking'', 70), (''copying'', 90), (''done'', 100), (''completed'', 100),
      (''finished'', 100)]"

fun first_keyword :: "(string \<times> int) list \<Rightarrow> string \<Rightarrow> int option" where
  "first_keyword [] line_lower = None"
| "first_keyword ((keyword, v) # table) line_lower =
     (if py_in keyword line_lower then Some v else first_keyword table line_lower)"

definition is_digit :: "char \<Rightarrow> bool" where
  "is_digit c = ((48::nat) \<le> of_char c \<and> of_char c \<le> (57::nat))"

definition int_of_digits :: "string \<Rightarrow> int" where
  "int_of_digits ds = foldl (\<lambda>a c. 10 * a + (int (of_char c) - 48)) 0 ds"

fun percent_match :: "string \<Rightarrow> int option" where
  "percent_match [] = None"
| "percent_match (c # cs) =
     (let ds = takeWhile is_digit (c # cs) in
      if ds \<noteq> [] \<and> prefix ''%'' (dropWhile is_digit (c # cs)) then Some (int_of_digits ds)
      else percent_match cs)"

definition parse_progress :: "string \<Rightarrow> int option" where
  "parse_progress line =
     (case first_keyword progress_keywords (lower line) of
        Some v \<Rightarrow> Some v
      | None \<Rightarrow> percent_match line)"

text \<open>
  \<open>_handle_output\<close>: the line becomes a log entry of the task, is written to the log
  file, and moves the progress estimate when the heuristic finds one.
\<close>

definition handle_output :: "world \<Rightarrow> nat \<Rightarrow> string \<Rightarrow> NuitkaRunner \<Rightarrow> NuitkaRunner" where
  "handle_output w t line r =
     (let r1 = r\<lparr>task := (task r)\<lparr>logs := logs (task r)
                  @ [\<lparr>timestamp = t, level = ''INFO'', message = line, source = ''nuitka''\<rparr>]\<rparr>\<rparr>;
          r2 = write_log w t line r1
      in case parse_progress line of
           None \<Rightarrow> r2
         | Some p \<Rightarrow> r2\<lparr>task := (task r2)\<lparr>progress := p\<rparr>\<rparr>)"

text \<open>
  \<open>for line in iter(self.process.stdout.readline, '')\<close>: the loop ends at the first empty
  string, the end of the output; every line is stripped of its line end and handled.
\<close>

fun read_output :: "world \<Rightarrow> (nat \<times> string) list \<Rightarrow> NuitkaRunner \<Rightarrow> NuitkaRunner" where
  "read_output w [] r = r"
| "read_output w ((t, line) # rest) r =
     (if line = [] then r
      else read_output w rest (handle_output w t (rstrip {CHR 0x0A, CHR 0x0D} line) r))"

text \<open>
  The start of \<open>run\<close>: the log file is opened for writing, which empties it, and gets
  its three header lines. \<open>Inl\<close> carries the text of the exception when that fails.
  Without a log file path nothing is opened.
\<close>

definition open_log_file :: "world \<Rightarrow> NuitkaRunner \<Rightarrow> string + NuitkaRunner" where
  "open_log_file w r =
     (case log_file_path (task r) of
        None \<Rightarrow> Inr r
      | Some path \<Rightarrow>
          if path = [] then Inr r
          else (case open_log w path of
                  Some e \<Rightarrow> Inl e
                | None \<Rightarrow>
                    Inr (write_log w (t_start w) (replicate 80 CHR ''='')
                          (write_log w (t_start w) (msg_command @ command (task r))
                            (write_log w (t_start w) (msg_start_time @ strftime w (t_start w))
                              (r\<lparr>log_file := True, log_written := []\<rparr>))))))"

text \<open>
  The \<open>try\<close> block of \<open>run\<close>. \<open>Inl\<close> is an exception that leaves the block, with the
  state in which it does; the two kinds are the two \<open>except\<close> clauses of the source.
\<close>

datatype exn = FileNotFoundError string | OtherException string

definition run_body :: "world \<Rightarrow> NuitkaRunner \<Rightarrow> (exn \<times> NuitkaRunner) + NuitkaRunner" where
  "run_body w r =
     (case spawn w (parse_command (command (task r))) of
        NotFound e \<Rightarrow> Inl (FileNotFoundError e, r)
      | Refused e \<Rightarrow> Inl (OtherException e, r)
      | Started pid output ending \<Rightarrow>
          (let r1 = read_output w output (r\<lparr>process := Some pid\<rparr>) in
           case ending of
             Broke e \<Rightarrow> Inl (OtherException e, r1)
           | Exited code \<Rightarrow>
               (let r2 = r1\<lparr>task := (task r1)\<lparr>exit_code := Some code, end_time := Some (t_end w)\<rparr>\<rparr> in
                if code = 0 then
                  Inr (emit (build_finished code)
                        (close_log_file
                          (write_log w (t_end w) (msg_end_time @ strftime w (t_end w))
                            (write_log w (t_end w) (msg_build_succeeded @ py_str_int code)
                              (write_log w (t_end w) (replicate 80 CHR ''='')
                                (r2\<lparr>task := (task r2)\<lparr>status := COMPLETED\<rparr>\<rparr>))))))
                else
                  Inr (emit (build_failed (msg_build_failed @ py_str_int code))
                        (close_log_file
                          (write_log w (t_end w) (msg_end_time @ strftime w (t_end w))
                            (write_log w (t_end w) (msg_build_failed @ py_str_int code)
                              (write_log w (t_end w) (replicate 80 CHR ''='')
                                (r2\<lparr>task := (task r2)\<lparr>status := FAILED\<rparr>\<rparr>)))))))))"

text \<open>The two \<open>except\<close> clauses: the same steps with two different messages.\<close>

definition run_failed :: "world \<Rightarrow> string \<Rightarrow> NuitkaRunner \<Rightarrow> NuitkaRunner" where
  "run_failed w error_msg r =
     emit (build_failed error_msg)
       (close_log_file
         (write_log w (t_end w) (msg_error @ error_msg)
           (r\<lparr>task := (task r)\<lparr>status := FAILED, end_time := Some (t_end w)\<rparr>\<rparr>)))"

text \<open>
  \<open>NuitkaRunner.run\<close>. When the log file cannot be created the task fails before the
  \<open>try\<close> block is entered; otherwise the block runs, an exception that leaves it is
  handled by its clause, and the \<open>finally\<close> clause clears the running flag.
\<close>

definition run :: "world \<Rightarrow> NuitkaRunner \<Rightarrow> NuitkaRunner" where
  "run w r =
     (let r0 = r\<lparr>running := True,
                 task := (task r)\<lparr>status := RUNNING, start_time := Some (t_start w)\<rparr>\<rparr> in
      case open_log_file w r0 of
        Inl e \<Rightarrow>
          (emit (build_failed (msg_log_create_failed @ e))
             (r0\<lparr>task := (task r0)\<lparr>status := FAILED, end_time := Some (t_start w)\<rparr>\<rparr>))
            \<lparr>running := False\<rparr>
      | Inr r1 \<Rightarrow>
          (case run_body w r1 of
             Inr r2 \<Rightarrow> r2
           | Inl (FileNotFoundError e, r2) \<Rightarrow> run_failed w (msg_nuitka_not_found @ e) r2
           | Inl (OtherException e, r2) \<Rightarrow> run_failed w (msg_build_error @ e) r2)
            \<lparr>running := False\<rparr>)"

text \<open>
  \<open>_terminate_process_fallback\<close>: \<open>terminate\<close> and a wait; when the wait times out,
  \<open>kill\<close> and another wait. Every exception is caught.
\<close>

definition terminate_process_fallback :: "world \<Rightarrow> nat \<Rightarrow> NuitkaRunner \<Rightarrow> NuitkaRunner" where
  "terminate_process_fallback w pid r =
     (case terminate_outcome w of
        Stopped \<Rightarrow> r\<lparr>os_actions := os_actions r @ [Terminate pid]\<rparr>
      | TimedOut \<Rightarrow> r\<lparr>os_actions := os_actions r @ [Terminate pid, Kill pid]\<rparr>
      | TerminateFailed \<Rightarrow> r\<lparr>os_actions := os_actions r @ [Terminate pid]\<rparr>)"

text \<open>
  \<open>NuitkaRunner.stop\<close>, called at the time \<open>t_end w\<close>, possibly from another thread
  while \<open>run\<close> executes: it is one step on the state that the runner is in, which can
  be a state between two statements of \<open>run\<close>. It acts only when there is a
  process and the running flag is set: the flag is cleared, the process tree is ended
  (by \<open>taskkill\<close> on Windows, with the fallback when running it raises, and by the
  fallback elsewhere), the log file gets the cancellation notice and is closed, and the
  task is marked as failed with its end time.
\<close>

definition stop :: "world \<Rightarrow> NuitkaRunner \<Rightarrow> NuitkaRunner" where
  "stop w r =
     (case process r of
        None \<Rightarrow> r
      | Some pid \<Rightarrow>
          if running r then
            (let r1 = r\<lparr>running := False\<rparr>;
                 r2 = (if win32 w then
                         (let r' = r1\<lparr>os_actions := os_actions r1 @ [Taskkill pid]\<rparr> in
                          if taskkill_raises w then terminate_process_fallback w pid r' else r')
                       else terminate_process_fallback w pid r1);
                 r3 = close_log_file (write_log w (t_end w) msg_build_cancelled r2)
             in r3\<lparr>task := (task r3)\<lparr>status := FAILED, end_time := Some (t_end w)\<rparr>\<rparr>)
          else r)"

text \<open>\<open>NuitkaRunner.is_running\<close>.\<close>

definition is_running :: "NuitkaRunner \<Rightarrow> bool" where
  "is_running r = (running r \<and> process r \<noteq> None)"

text \<open>
  A task with the defaults of the dataclass (the identifier, a fresh UUID in the
  source, is a parameter) and the runner that \<open>__init__\<close> builds for a task, with an
  empty log file on disk.
\<close>

definition new_task :: "string \<Rightarrow> BuildTask" where
  "new_task uuid =
     \<lparr>task_id = uuid, task_entry_file = [], task_output_dir = [], task_output_filename = [],
      task_icon_path = None, command = [], log_file_path = None, status = PENDING,
      progress = 0, start_time = None, end_time = None, exit_code = None, logs = []\<rparr>"

definition new_runner :: "BuildTask \<Rightarrow> NuitkaRunner" where
  "new_runner t =
     \<lparr>task = t, process = None, running = False, log_file = False, log_written = [],
      signals = [], os_actions = []\<rparr>"

text \<open>
  \<open>log_opens w r\<close>: the start of \<open>run\<close> gets its log file, or the task has no log file
  path.
\<close>

definition log_opens :: "world \<Rightarrow> NuitkaRunner \<Rightarrow> bool" where
  "log_opens w r =
     (case log_file_path (task r) of
        None \<Rightarrow> True
      | Some path \<Rightarrow> path = [] \<or> open_log w path = None)"

text \<open>The runner as the first two statements of \<open>run\<close> leave it.\<close>

definition started :: "NuitkaRunner \<Rightarrow> world \<Rightarrow> NuitkaRunner" where
  "started r w = r\<lparr>running := True,
                    task := (task r)\<lparr>status := RUNNING, start_time := Some (t_start w)\<rparr>\<rparr>"

text \<open>
  \<open>stop\<close> is called from the user interface while \<open>run\<close> executes in its own thread,
  which nothing suspends: after \<open>stop\<close> has returned, \<open>run\<close> goes on with the statements
  it has left. The pieces of \<open>run\<close> are named here so that a \<open>stop\<close> can stand
  between them. \<open>run_finish\<close> is the \<open>try\<close> block after the loop over the output
  (\<open>wait\<close>, exit code, end time, status, trailer, signal), and \<open>run_handlers\<close> the
  \<open>except\<close> clauses with the \<open>finally\<close> clause.
\<close>

definition run_finish ::
  "world \<Rightarrow> proc_end \<Rightarrow> NuitkaRunner \<Rightarrow> (exn \<times> NuitkaRunner) + NuitkaRunner" where
  "run_finish w ending r1 =
     (case ending of
        Broke e \<Rightarrow> Inl (OtherException e, r1)
      | Exited code \<Rightarrow>
          (let r2 = r1\<lparr>task := (task r1)\<lparr>exit_code := Some code, end_time := Some (t_end w)\<rparr>\<rparr> in
           if code = 0 then
             Inr (emit (build_finished code)
                   (close_log_file
                     (write_log w (t_end w) (msg_end_time @ strftime w (t_end w))
                       (write_log w (t_end w) (msg_build_succeeded @ py_str_int code)
                         (write_log w (t_end w) (replicate 80 CHR ''='')
                           (r2\<lparr>task := (task r2)\<lparr>status := COMPLETED\<rparr>\<rparr>))))))
           else
             Inr (emit (build_failed (msg_build_failed @ py_str_int code))
                   (close_log_file
                     (write_log w (t_end w) (msg_end_time @ strftime w (t_end w))
                       (write_log w (t_end w) (msg_build_failed @ py_str_int code)
                         (write_log w (t_end w) (replicate 80 CHR ''='')
                           (r2\<lparr>task := (task r2)\<lparr>status := FAILED\<rparr>\<rparr>))))))))"

definition run_handlers :: "world \<Rightarrow> (exn \<times> NuitkaRunner) + NuitkaRunner \<Rightarrow> NuitkaRunner" where
  "run_handlers w result =
     (case result of
        Inr r2 \<Rightarrow> r2
      | Inl (FileNotFoundError e, r2) \<Rightarrow> run_failed w (msg_nuitka_not_found @ e) r2
      | Inl (OtherException e, r2) \<Rightarrow> run_failed w (msg_build_error @ e) r2)
       \<lparr>running := False\<rparr>"

text \<open>
  \<open>run_until w k r\<close>: the run up to the moment when the process has started and \<open>k\<close> of
  its lines are handled (all of them, when it writes fewer), with the lines that are
  still to come and the way the process ends. There is no such moment when the log file
  cannot be opened or the process does not start. The lines are those before the empty
  string with which \<open>readline\<close> reports the end of the output.
\<close>

definition run_until ::
  "world \<Rightarrow> nat \<Rightarrow> NuitkaRunner \<Rightarrow> (NuitkaRunner \<times> (nat \<times> string) list \<times> proc_end) option" where
  "run_until w k r =
     (case open_log_file w (started r w) of
        Inl e \<Rightarrow> None
      | Inr r1 \<Rightarrow>
          (case spawn w (parse_command (command (task r1))) of
             Started pid output ending \<Rightarrow>
               (let lines = takeWhile (\<lambda>(t, line). line \<noteq> []) output in
                Some (read_output w (take k lines) (r1\<lparr>process := Some pid\<rparr>),
                      drop k lines, ending))
           | NotFound e \<Rightarrow> None
           | Refused e \<Rightarrow> None))"



section \<open>The log tailer (\<open>core/log_reader_thread.py\<close>)\<close>

text \<open>
  The log file is the string of its bytes, and a position in it is a number of bytes.
  The file is read as UTF-8 text; its content is taken to be valid UTF-8 and a stored
  position to fall on the boundary of a character, so that decoding changes nothing
  in this model (where the source replaces an undecodable byte, the model says nothing).
\<close>

datatype reader_signal = logs_received "string list" | read_error string

record LogReaderThread =
  reader_log_file_path :: string
  interval_ms :: nat
  last_position :: nat
  reader_running :: bool
  log_file_exists :: bool
  reader_signals :: "reader_signal list"

text \<open>\<open>LogReaderThread.__init__\<close>, with the default interval of 15000 ms.\<close>

definition new_reader :: "string \<Rightarrow> LogReaderThread" where
  "new_reader path =
     \<lparr>reader_log_file_path = path, interval_ms = 15000, last_position = 0,
      reader_running = False, log_file_exists = False, reader_signals = []\<rparr>"

text \<open>
  What one poll finds: the file is absent or present with a content, and the two places
  where the file system can raise, asking for the size and reading. A fault is an
  \<open>OSError\<close>, a \<open>ValueError\<close> with its text, or another exception with its text.
\<close>

datatype log_file_state = Absent | Present string

datatype io_fault = NoFault | OSFault | ValueFault string | OtherFault string

record poll_world =
  log_state :: log_file_state
  size_fault :: io_fault
  read_fault :: io_fault

definition msg_read_failed :: string where
  "msg_read_failed =
     [CHR 0xE8, CHR 0xAF, CHR 0xBB, CHR 0xE5, CHR 0x8F, CHR 0x96, CHR 0xE6, CHR 0x97,
     CHR 0xA5, CHR 0xE5, CHR 0xBF, CHR 0x97, CHR 0xE5, CHR 0xA4, CHR 0xB1, CHR 0xE8,
     CHR 0xB4, CHR 0xA5] @ '': ''"

text \<open>
  Reading in text mode translates \<open>\r\n\<close> and a lone \<open>\r\<close> to \<open>\n\<close>; \<open>readlines\<close> cuts
  the text after every \<open>\n\<close> and keeps the line ends.
\<close>

fun universal_newlines :: "string \<Rightarrow> string" where
  "universal_newlines [] = []"
| "universal_newlines [c] = [if c = CHR 0x0D then CHR 0x0A else c]"
| "universal_newlines (c # d # cs) =
     (if c = CHR 0x0D
      then (if d = CHR 0x0A then CHR 0x0A # universal_newlines cs
            else CHR 0x0A # universal_newlines (d # cs))
      else c # universal_newlines (d # cs))"

fun split_keepends :: "string \<Rightarrow> string \<Rightarrow> string list" where
  "split_keepends cur [] = (if cur = [] then [] else [cur])"
| "split_keepends cur (c # cs) =
     (if c = CHR 0x0A then (cur @ [c]) # split_keepends [] cs
      else split_keepends (cur @ [c]) cs)"

definition readlines :: "string \<Rightarrow> string list" where
  "readlines bytes = split_keepends [] (universal_newlines bytes)"

text \<open>
  The loop over the new lines: each is stripped of its trailing \<open>\n\<close> and \<open>\r\<close>, and
  those that are empty then are dropped.
\<close>

definition filtered_lines :: "string list \<Rightarrow> string list" where
  "filtered_lines new_lines =
     filter (\<lambda>stripped. stripped \<noteq> []) (map (rstrip {CHR 0x0A, CHR 0x0D}) new_lines)"

text \<open>
  The \<open>except\<close> clauses of \<open>_read_new_logs\<close>: an \<open>OSError\<close> is passed over, a
  \<open>ValueError\<close> too when its text speaks of a closed file or an I/O operation, and
  everything else is emitted as \<open>read_error\<close>.
\<close>

definition read_fault_handler :: "io_fault \<Rightarrow> LogReaderThread \<Rightarrow> LogReaderThread" where
  "read_fault_handler fault r =
     (case fault of
        NoFault \<Rightarrow> r
      | OSFault \<Rightarrow> r
      | ValueFault e \<Rightarrow>
          if py_in ''closed file'' e \<or> py_in ''I/O operation'' e then r
          else r\<lparr>reader_signals := reader_signals r @ [read_error (msg_read_failed @ e)]\<rparr>
      | OtherFault e \<Rightarrow>
          r\<lparr>reader_signals := reader_signals r @ [read_error (msg_read_failed @ e)]\<rparr>)"

text \<open>
  \<open>LogReaderThread._read_new_logs\<close>, one poll. The file does not change while the poll
  runs. After the lines are read, \<open>f.tell()\<close> is the end of the file.
\<close>

definition read_new_logs :: "poll_world \<Rightarrow> LogReaderThread \<Rightarrow> LogReaderThread" where
  "read_new_logs w r =
     (case log_state w of
        Absent \<Rightarrow>
          if log_file_exists r then r\<lparr>log_file_exists := False, last_position := 0\<rparr> else r
      | Present content \<Rightarrow>
          (let r1 = (if \<not> log_file_exists r
                     then r\<lparr>log_file_exists := True, last_position := 0\<rparr> else r) in
           if size_fault w \<noteq> NoFault then read_fault_handler (size_fault w) r1
           else
             (let file_size = length content in
              if file_size = 0 \<or> file_size \<le> last_position r1 then r1
              else if read_fault w \<noteq> NoFault then read_fault_handler (read_fault w) r1
              else
                (let new_lines = readlines (drop (last_position r1) content);
                     r2 = r1\<lparr>last_position := length content\<rparr>
                 in if new_lines \<noteq> [] \<and> filtered_lines new_lines \<noteq> []
                    then r2\<lparr>reader_signals := reader_signals r2
                              @ [logs_received (filtered_lines new_lines)]\<rparr>
                    else r2))))"

text \<open>A poll without faults on a file that is absent, and on a file with a content.\<close>

definition poll_absent :: poll_world where
  "poll_absent = \<lparr>log_state = Absent, size_fault = NoFault, read_fault = NoFault\<rparr>"

definition poll_present :: "string \<Rightarrow> poll_world" where
  "poll_present content = \<lparr>log_state = Present content, size_fault = NoFault, read_fault = NoFault\<rparr>"

text \<open>
  The batch that a text gives when it is read as a whole: none when every line is
  empty, one event with the lines that are not.
\<close>

definition batch_of :: "string \<Rightarrow> reader_signal list" where
  "batch_of text =
     (if filtered_lines (readlines text) = [] then []
      else [logs_received (filtered_lines (readlines text))])"

text \<open>
  Lines as a writer appends them: each a text without \<open>\n\<close> or \<open>\r\<close>, followed by its
  line end \<open>\n\<close> or \<open>\r\n\<close>.
\<close>

definition well_formed_lines :: "(string \<times> string) list \<Rightarrow> bool" where
  "well_formed_lines les =
     list_all (\<lambda>(l, e). list_all (\<lambda>c. c \<noteq> CHR 0x0A \<and> c \<noteq> CHR 0x0D) l
                        \<and> (e = [CHR 0x0A] \<or> e = [CHR 0x0D, CHR 0x0A])) les"

chapter \<open>Properties\<close>

section \<open>Splitting and searching strings\<close>

lemma split_sa: "split_key ''nuitka.standalone'' = Inr [''nuitka'', ''standalone'']"
  by (simp add: split_key_def)

lemma split_of: "split_key ''nuitka.onefile'' = Inr [''nuitka'', ''onefile'']"
  by (simp add: split_key_def)

lemma py_in_facts:
  "py_in ''standalone'' ''nuitka.standalone''"
  "\<not> py_in ''standalone'' ''nuitka.onefile''"
  "py_in ''onefile'' ''nuitka.onefile''"
  "\<not> py_in ''onefile'' ''nuitka.standalone''"
  by simp_all

lemma prefix_py_in: "prefix w k \<Longrightarrow> py_in w k"
  by (cases k) auto

lemma split_on_nonempty: "split_on c k \<noteq> []"
  by (induction k) (auto split: list.splits)

lemma split_on_parts:
  "split_on c k = w # ws \<Longrightarrow> prefix w k \<and> (\<forall>x \<in> set ws. py_in x k)"
proof (induction k arbitrary: w ws)
  case Nil
  then show ?case by simp
next
  case (Cons a k)
  obtain w' ws' where s: "split_on c k = w' # ws'"
    using split_on_nonempty [of c k] by (cases "split_on c k") auto
  from Cons.IH [OF s] have ih: "prefix w' k" "\<forall>x \<in> set ws'. py_in x k" by auto
  show ?case
  proof (cases "a = c")
    case True
    with Cons.prems s have "w = []" "ws = w' # ws'" by auto
    with ih show ?thesis by (auto simp: prefix_py_in)
  next
    case False
    with Cons.prems s have "w = a # w'" "ws = ws'" by auto
    with ih show ?thesis by auto
  qed
qed

lemma split_on_py_in: "x \<in> set (split_on c k) \<Longrightarrow> py_in x k"
  using split_on_parts [of c k] split_on_nonempty [of c k]
  by (cases "split_on c k") (auto simp: prefix_py_in)

lemma split_on_single: "split_on c k = [w] \<Longrightarrow> k = w"
proof (induction k arbitrary: w)
  case Nil
  then show ?case by simp
next
  case (Cons a k)
  then show ?case
    using split_on_nonempty [of c k]
    by (auto split: if_splits list.splits)
qed

section \<open>Storing and selecting along a key path\<close>

lemma map_of_update: "map_of (AList.update k v d) x = (if x = k then Some v else map_of d x)"
  by (simp add: update_conv')

lemma update_path_other_key:
  "update_path (k # ks) v d = Inr d' \<Longrightarrow> x \<noteq> k \<Longrightarrow> map_of d' x = map_of d x"
  by (cases ks) (auto simp: map_of_update split: sum.splits option.splits cval.splits)

lemma update_path_same_key:
  "update_path (k # ks) v d = Inr d' \<Longrightarrow> \<exists>w. map_of d' k = Some w"
  by (cases ks) (auto simp: map_of_update split: sum.splits option.splits cval.splits)

lemma assign_False: "assign old (VBool b) = Inr (VBool b)"
  by (cases "(old, VBool b)" rule: assign.cases) auto

lemma select2:
  "select_path [n, l] d =
     (case map_of d n of None \<Rightarrow> Inr VNone | Some VNone \<Rightarrow> Inr VNone
      | Some (VDict sub) \<Rightarrow> (case map_of sub l of None \<Rightarrow> Inr VNone | Some v \<Rightarrow> Inr v)
      | _ \<Rightarrow> Inl Unmodelled)"
  by (auto split: option.splits cval.splits)

lemma update2_bool:
  "update_path [n, l] (VBool b) d =
     (case map_of d n of
        Some (VList xs) \<Rightarrow> Inl Unmodelled
      | Some (VDict sub) \<Rightarrow> Inr (AList.update n (VDict (AList.update l (VBool b) sub)) d)
      | _ \<Rightarrow> Inr (AList.update n (VDict [(l, VBool b)]) d))"
  by (auto simp: assign_False split: option.splits cval.splits)

lemma select_path_empty: "select_path (k # ks) [] = Inr VNone"
  by (cases ks) auto

lemma select_path_cong:
  "map_of d' k = map_of d k \<Longrightarrow> select_path (k # ks) d' = select_path (k # ks) d"
  by (cases ks) auto

lemma assign_value: "assign old v = Inr v' \<Longrightarrow> v' = v"
  by (cases "(old, v)" rule: assign.cases) auto

lemma written_value:
  assumes "update_path [n, l] v d = Inr d'"
  shows "select_path [n, l] d' = Inr v"
proof -
  have one: "update_path [l] v sub = Inr sub' \<Longrightarrow> map_of sub' l = Some v" for sub sub'
    by (auto simp: map_of_update split: sum.splits dest: assign_value)
  show ?thesis
  proof (cases "map_of d n")
    case None
    with assms obtain sub' where "update_path [l] v [] = Inr sub'" "d' = AList.update n (VDict sub') d"
      by (auto split: sum.splits)
    with one [of "[]" sub'] show ?thesis by (simp add: select2 map_of_update)
  next
    case (Some w)
    show ?thesis
    proof (cases w)
      case (VDict sub)
      with Some assms obtain sub' where "update_path [l] v sub = Inr sub'"
        "d' = AList.update n (VDict sub') d"
        by (auto split: sum.splits)
      with one [of sub sub'] show ?thesis by (simp add: select2 map_of_update)
    next
      case (VList xs)
      with Some assms show ?thesis by simp
    qed (use Some assms in \<open>insert one [of "[]"],
          auto simp: select2 map_of_update split: sum.splits\<close>)
  qed
qed

lemma path_true_frame:
  assumes upd: "update_path p v d = Inr d'"
    and p1: "p \<noteq> [''nuitka'']"
    and p2: "\<forall>rest. p \<noteq> ''nuitka'' # leaf # rest"
  shows "(select_path [''nuitka'', leaf] d' = Inr (VBool True))
       = (select_path [''nuitka'', leaf] d = Inr (VBool True))"
proof -
  from upd obtain k ks where pk: "p = k # ks" by (cases p) auto
  show ?thesis
  proof (cases "k = ''nuitka''")
    case False
    with upd pk have "map_of d' ''nuitka'' = map_of d ''nuitka''"
      using update_path_other_key [of k ks v d d' "''nuitka''"] by simp
    then show ?thesis using select_path_cong [of d' "''nuitka''" d "[leaf]"] by simp
  next
    case True
    with p1 pk obtain q rest where ks: "ks = q # rest" by (cases ks) auto
    with p2 pk True have q: "leaf \<noteq> q" by auto
    show ?thesis
    proof (cases "\<exists>sub. map_of d ''nuitka'' = Some (VDict sub)")
      case True
      then obtain sub where sub: "map_of d ''nuitka'' = Some (VDict sub)" by blast
      with upd pk ks \<open>k = ''nuitka''\<close> obtain sub' where
        s: "update_path (q # rest) v sub = Inr sub'" "d' = AList.update ''nuitka'' (VDict sub') d"
        by (auto split: sum.splits)
      from update_path_other_key [OF s(1) q] s(2) sub show ?thesis
        by (simp add: select2 map_of_update)
    next
      case False
      with upd pk ks \<open>k = ''nuitka''\<close> obtain sub' where
        s: "update_path (q # rest) v [] = Inr sub'" "d' = AList.update ''nuitka'' (VDict sub') d"
        by (auto split: sum.splits option.splits cval.splits)
      from update_path_other_key [OF s(1) q] s(2) False show ?thesis
        by (auto simp: select2 map_of_update split: option.splits cval.splits)
    qed
  qed
qed

lemma omega_update_frame:
  assumes upd: "omega_update d k v = Inr d'"
    and k1: "k \<noteq> ''nuitka''"
    and k2: "\<not> py_in leaf k"
  shows "(select_path [''nuitka'', leaf] d' = Inr (VBool True))
       = (select_path [''nuitka'', leaf] d = Inr (VBool True))"
proof -
  from upd obtain p where p: "split_key k = Inr p" "update_path p v d = Inr d'"
    by (auto simp: omega_update_def split: sum.splits)
  then have sp: "p = split_on CHR ''.'' k"
    by (auto simp: split_key_def split: if_splits)
  have "p \<noteq> [''nuitka'']"
    using split_on_single [of "CHR ''.''" k "''nuitka''"] k1 sp by auto
  moreover have "p \<noteq> ''nuitka'' # leaf # rest" for rest
    using split_on_py_in [of leaf "CHR ''.''" k] k2 sp by auto
  ultimately show ?thesis using path_true_frame [OF p(2)] by blast
qed

section \<open>\<open>Config.update\<close> and the two mode flags\<close>

lemma scan_single:
  "scan_mode_keys [''nuitka.standalone''] (None, None) = (Some ''nuitka.standalone'', None)"
  "scan_mode_keys [''nuitka.onefile''] (None, None) = (None, Some ''nuitka.onefile'')"
  by simp_all

lemma scan_mode_keys_gen:
  assumes "\<forall>k \<in> set keys. py_in ''standalone'' k \<longrightarrow> k = sa"
    and "\<forall>k \<in> set keys. py_in ''onefile'' k \<longrightarrow> k = ofk"
    and "py_in ''standalone'' sa" and "\<not> py_in ''standalone'' ofk" and "py_in ''onefile'' ofk"
  shows "scan_mode_keys keys (a, b) =
           (if sa \<in> set keys then Some sa else a, if ofk \<in> set keys then Some ofk else b)"
  using assms(1,2)
proof (induction keys arbitrary: a b)
  case Nil
  show ?case by simp
next
  case (Cons k keys)
  have ih: "scan_mode_keys keys (a', b') =
           (if sa \<in> set keys then Some sa else a', if ofk \<in> set keys then Some ofk else b')" for a' b'
    using Cons.IH Cons.prems by simp
  have ne: "sa \<noteq> ofk" using assms(3,4) by auto
  show ?case
  proof (cases "py_in ''standalone'' k")
    case True
    with Cons.prems have "k = sa" by simp
    with True ne show ?thesis by (simp add: ih del: py_in.simps)
  next
    case False
    with assms(3) have ksa: "k \<noteq> sa" by auto
    show ?thesis
    proof (cases "py_in ''onefile'' k")
      case True
      with Cons.prems have "k = ofk" by simp
      with True False ne show ?thesis by (simp add: ih del: py_in.simps)
    next
      case nof: False
      with assms(5) have "k \<noteq> ofk" by auto
      with False nof ksa show ?thesis by (simp add: ih del: py_in.simps)
    qed
  qed
qed

lemma scan_mode_keys_std:
  assumes "\<forall>k \<in> set keys. py_in ''standalone'' k \<longrightarrow> k = ''nuitka.standalone''"
    and "\<forall>k \<in> set keys. py_in ''onefile'' k \<longrightarrow> k = ''nuitka.onefile''"
  shows "scan_mode_keys keys (a, b) =
           (if ''nuitka.standalone'' \<in> set keys then Some ''nuitka.standalone'' else a,
            if ''nuitka.onefile'' \<in> set keys then Some ''nuitka.onefile'' else b)"
  by (rule scan_mode_keys_gen [OF assms py_in_facts(1,2,3)])

lemma write_false_read:
  assumes "omega_update d key (VBool False) = Inr d'"
    and "key = ''nuitka.standalone'' \<or> key = ''nuitka.onefile''"
  shows "omega_select d' key = Inr (VBool False)"
  using assms unfolding omega_update_def omega_select_def
  by (auto simp: split_key_def update2_bool select2 map_of_update
      simp del: update_path.simps select_path.simps split: option.splits cval.splits)

lemma write_false_keeps_reads_false:
  assumes "omega_update d key (VBool False) = Inr d'"
    and "(key, other) = (''nuitka.standalone'', ''nuitka.onefile'')
       \<or> (key, other) = (''nuitka.onefile'', ''nuitka.standalone'')"
    and "reads_false d other"
  shows "reads_false d' other"
  using assms unfolding omega_update_def omega_select_def reads_false_def
  by (auto simp: split_key_def update2_bool select2 map_of_update
      simp del: update_path.simps select_path.simps split: option.splits cval.splits)

lemma exclude_other_fires:
  assumes "exclude_other kwargs (Some this) other_key dflt d = Inr d'"
    and "map_of kwargs this = Some (VBool True)"
    and "other_key = None \<or> other_key = Some dflt"
    and "dflt = ''nuitka.standalone'' \<or> dflt = ''nuitka.onefile''"
  shows "reads_false d' dflt"
proof (cases other_key)
  case None
  with assms(1,2) obtain v where v: "omega_select d dflt = Inr v"
    by (auto simp: exclude_other_def split: sum.splits)
  show ?thesis
  proof (cases "truthy v")
    case True
    with assms(1,2) None v have "omega_update d dflt (VBool False) = Inr d'"
      by (simp add: exclude_other_def)
    from write_false_read [OF this assms(4)] show ?thesis by (simp add: reads_false_def)
  next
    case False
    with assms(1,2) None v have "d' = d" by (simp add: exclude_other_def)
    with v False show ?thesis by (simp add: reads_false_def)
  qed
next
  case (Some k)
  with assms(3) have "k = dflt" by simp
  with assms(1,2) Some have "omega_update d dflt (VBool False) = Inr d'"
    by (simp add: exclude_other_def)
  from write_false_read [OF this assms(4)] show ?thesis by (simp add: reads_false_def)
qed

lemma exclude_other_keeps:
  assumes "exclude_other kwargs this_key (Some key) key d = Inr d'"
    and "this_key = None \<or> this_key = Some other"
    and "(key, other) = (''nuitka.standalone'', ''nuitka.onefile'')
       \<or> (key, other) = (''nuitka.onefile'', ''nuitka.standalone'')"
    and "reads_false d other"
  shows "reads_false d' other"
proof (cases "this_key = Some other \<and> map_of kwargs other = Some (VBool True)")
  case True
  with assms(1) have "omega_update d key (VBool False) = Inr d'"
    by (simp add: exclude_other_def)
  from write_false_keeps_reads_false [OF this assms(3,4)] show ?thesis .
next
  case False
  with assms(1,2) have "d' = d"
    by (auto simp: exclude_other_def split: option.splits if_splits)
  with assms(4) show ?thesis by simp
qed

lemma update_each_flag:
  assumes "update_each kwargs d0 = Inr d1"
    and "distinct (map fst kwargs)"
    and "''nuitka'' \<notin> set (map fst kwargs)"
    and "\<forall>k \<in> set (map fst kwargs). py_in leaf k \<longrightarrow> k = key"
    and kl: "split_key key = Inr [''nuitka'', leaf]"
  shows "(select_path [''nuitka'', leaf] d1 = Inr (VBool True))
       = (case map_of kwargs key of
            Some v \<Rightarrow> v = VBool True
          | None \<Rightarrow> select_path [''nuitka'', leaf] d0 = Inr (VBool True))"
  using assms(1-4)
proof (induction kwargs arbitrary: d0)
  case Nil
  then show ?case by simp
next
  case (Cons kv rest)
  obtain k v where kv: "kv = (k, v)" by (cases kv)
  from Cons.prems(1) kv obtain dm where
    dm: "omega_update d0 k v = Inr dm" "update_each rest dm = Inr d1"
    by (auto split: sum.splits)
  have ih: "(select_path [''nuitka'', leaf] d1 = Inr (VBool True))
       = (case map_of rest key of
            Some v \<Rightarrow> v = VBool True
          | None \<Rightarrow> select_path [''nuitka'', leaf] dm = Inr (VBool True))"
    using Cons.IH [OF dm(2)] Cons.prems(2-4) by simp
  show ?case
  proof (cases "k = key")
    case True
    with Cons.prems(2) kv have "key \<notin> fst ` set rest" by auto
    then have none: "map_of rest key = None" by (simp add: map_of_eq_None_iff)
    from dm(1) True kl have "update_path [''nuitka'', leaf] v d0 = Inr dm"
      by (simp add: omega_update_def)
    from written_value [OF this] have "select_path [''nuitka'', leaf] dm = Inr v" .
    with ih none True kv show ?thesis by auto
  next
    case False
    with Cons.prems(3,4) kv have "k \<noteq> ''nuitka''" "\<not> py_in leaf k" by auto
    from omega_update_frame [OF dm(1) this] ih False kv show ?thesis
      by (auto simp del: select_path.simps split: option.splits)
  qed
qed

lemma flag_is_true_path:
  "flag_is_true d ''nuitka.standalone'' = (select_path [''nuitka'', ''standalone''] d = Inr (VBool True))"
  "flag_is_true d ''nuitka.onefile'' = (select_path [''nuitka'', ''onefile''] d = Inr (VBool True))"
  by (simp_all add: flag_is_true_def omega_select_def split_sa split_of del: select_path.simps)

lemma reads_false_not_true: "reads_false d key \<Longrightarrow> \<not> flag_is_true d key"
  by (auto simp: reads_false_def flag_is_true_def)

lemma exclude_other_idle:
  assumes "\<forall>k. this_key = Some k \<longrightarrow> map_of kwargs k \<noteq> Some (VBool True)"
  shows "exclude_other kwargs this_key other_key dflt d = Inr d"
  using assms by (auto simp: exclude_other_def split: option.splits)

lemmas eval_update = update_def ensure_loaded_def init_def omega_update_def omega_select_def
  split_key_def exclude_other_def flag_is_true_def reads_false_def

text \<open>
  Claim C9. Storing \<open>False\<close> under one of the two mode flags does not touch the other
  flag: the mutual exclusion acts only on a flag that is given \<open>True\<close>. When the
  \<open>nuitka\<close> section is a mapping (or is missing, and then created), the call returns
  the document with exactly that one key written, and saves it; the other flag reads as
  before, and so does every key path that is neither on the way to the written key nor
  below it.
\<close>

theorem update_mode_false_frame:
  assumes loaded: "ensure_loaded st = Inr (d, st1)"
    and sec: "nuitka_section d = Some sub"
    and leaf: "(leaf, other) = (''standalone'', ''onefile'') \<or> (leaf, other) = (''onefile'', ''standalone'')"
  shows "let d' = AList.update ''nuitka'' (VDict (AList.update leaf (VBool False) sub)) d in
           update [(''nuitka.'' @ leaf, VBool False)] st
             = Inr (st1\<lparr>config := Some d', config_file := Some d'\<rparr>)
         \<and> omega_select d' (''nuitka.'' @ leaf) = Inr (VBool False)
         \<and> omega_select d' (''nuitka.'' @ other) = omega_select d (''nuitka.'' @ other)
         \<and> (\<forall>p. p \<noteq> [] \<and> \<not> prefix p [''nuitka'', leaf] \<and> \<not> prefix [''nuitka'', leaf] p
                \<longrightarrow> select_path p d' = select_path p d)"
proof -
  define d' where "d' = AList.update ''nuitka'' (VDict (AList.update leaf (VBool False) sub)) d"
  have upd: "omega_update d (''nuitka.'' @ leaf) (VBool False) = Inr d'"
    using leaf sec unfolding omega_update_def d'_def
    by (auto simp: split_key_def update2_bool nuitka_section_def simp del: update_path.simps
        split: option.splits cval.splits)
  have run: "update [(''nuitka.'' @ leaf, VBool False)] st
             = Inr (st1\<lparr>config := Some d', config_file := Some d'\<rparr>)"
    using leaf loaded upd by (auto simp: update_def exclude_other_def)
  have written: "omega_select d' (''nuitka.'' @ leaf) = Inr (VBool False)"
    using leaf unfolding omega_select_def d'_def
    by (auto simp: split_key_def select2 map_of_update simp del: select_path.simps)
  have other: "omega_select d' (''nuitka.'' @ other) = omega_select d (''nuitka.'' @ other)"
    using leaf sec unfolding omega_select_def d'_def
    by (auto simp: split_key_def select2 map_of_update nuitka_section_def
        simp del: select_path.simps split: option.splits cval.splits)
  have frame: "select_path p d' = select_path p d"
    if p: "p \<noteq> []" "\<not> prefix p [''nuitka'', leaf]" "\<not> prefix [''nuitka'', leaf] p" for p
  proof -
    from p obtain k ks where pk: "p = k # ks" by (cases p) auto
    show ?thesis
    proof (cases "k = ''nuitka''")
      case False
      then have "map_of d' k = map_of d k" by (simp add: d'_def map_of_update)
      then show ?thesis unfolding pk by (rule select_path_cong)
    next
      case True
      with p pk obtain q rest where ks: "ks = q # rest" by (cases ks) auto
      with p pk True have q: "q \<noteq> leaf" by auto
      have "select_path (q # rest) (AList.update leaf (VBool False) sub) = select_path (q # rest) sub"
        using q by (intro select_path_cong) (simp add: map_of_update)
      moreover have "select_path (''nuitka'' # q # rest) d = select_path (q # rest) sub"
        using sec by (auto simp: nuitka_section_def select_path_empty split: option.splits cval.splits)
      ultimately show ?thesis
        unfolding pk ks True d'_def by (simp add: map_of_update)
    qed
  qed
  show ?thesis
    using run written other frame unfolding d'_def Let_def by blast
qed

theorem update_mode_false_frame_witness:
  "update [(''nuitka.standalone'', VBool False)]
     (init [(''nuitka'', VDict [(''standalone'', VBool True), (''onefile'', VBool True)])])
   = Inr (init [(''nuitka'', VDict [(''standalone'', VBool False), (''onefile'', VBool True)])])
   \<and> omega_select [(''nuitka'', VDict [(''standalone'', VBool False), (''onefile'', VBool True)])]
        ''nuitka.onefile'' = Inr (VBool True)"
proof -
  let ?d = "[(''nuitka'', VDict [(''standalone'', VBool True), (''onefile'', VBool True)])]"
  have loaded: "ensure_loaded (init ?d) = Inr (?d, init ?d)"
    by (simp add: ensure_loaded_def init_def)
  have sec: "nuitka_section ?d = Some [(''standalone'', VBool True), (''onefile'', VBool True)]"
    by (simp add: nuitka_section_def)
  from update_mode_false_frame [OF loaded sec, of "''standalone''" "''onefile''"]
  show ?thesis by (simp add: init_def Let_def omega_select_def split_key_def)
qed

text \<open>
  Claim C2, as amended. Take a call of \<open>update\<close> that returns, in which
  \<open>nuitka.standalone\<close> is the only keyword that contains \<open>standalone\<close> and
  \<open>nuitka.onefile\<close> the only keyword that contains \<open>onefile\<close>. If the call gives
  \<open>nuitka.standalone\<close> the value \<open>True\<close>, then \<open>nuitka.onefile\<close> reads as a false value
  in the document that results (and that is saved), whether or not the call names it
  as well and whatever it held before; and the same with the two flags exchanged. If
  moreover no keyword stores the whole section \<open>nuitka\<close> and at most one of the two
  flags was \<open>True\<close> before the call, at most one is \<open>True\<close> after it.
\<close>

theorem update_mutual_exclusion:
  assumes run: "update kwargs st = Inr st'"
    and loaded: "ensure_loaded st = Inr (d0, st1)"
    and keys_sa: "\<forall>k \<in> set (map fst kwargs). py_in ''standalone'' k \<longrightarrow> k = ''nuitka.standalone''"
    and keys_of: "\<forall>k \<in> set (map fst kwargs). py_in ''onefile'' k \<longrightarrow> k = ''nuitka.onefile''"
    and dist: "distinct (map fst kwargs)"
  shows "\<exists>d'. config st' = Some d' \<and> config_file st' = Some d'
     \<and> (map_of kwargs ''nuitka.standalone'' = Some (VBool True) \<longrightarrow> reads_false d' ''nuitka.onefile'')
     \<and> (map_of kwargs ''nuitka.onefile'' = Some (VBool True) \<longrightarrow> reads_false d' ''nuitka.standalone'')
     \<and> (''nuitka'' \<notin> set (map fst kwargs)
          \<and> \<not> (flag_is_true d0 ''nuitka.standalone'' \<and> flag_is_true d0 ''nuitka.onefile'')
          \<longrightarrow> \<not> (flag_is_true d' ''nuitka.standalone'' \<and> flag_is_true d' ''nuitka.onefile''))"
proof -
  define sk where "sk = (if ''nuitka.standalone'' \<in> set (map fst kwargs) then Some ''nuitka.standalone'' else None)"
  define ok where "ok = (if ''nuitka.onefile'' \<in> set (map fst kwargs) then Some ''nuitka.onefile'' else None)"
  have scan: "scan_mode_keys (map fst kwargs) (None, None) = (sk, ok)"
    unfolding sk_def ok_def by (rule scan_mode_keys_std [OF keys_sa keys_of])
  from run loaded scan obtain d1 d2 d3 where
    d1: "update_each kwargs d0 = Inr d1"
    and d2: "exclude_other kwargs sk ok ''nuitka.onefile'' d1 = Inr d2"
    and d3: "exclude_other kwargs ok sk ''nuitka.standalone'' d2 = Inr d3"
    and st': "st' = st1\<lparr>config := Some d3, config_file := Some d3\<rparr>"
    by (auto simp: update_def split: sum.splits)
  have sk_cases: "sk = None \<or> sk = Some ''nuitka.standalone''"
    and ok_cases: "ok = None \<or> ok = Some ''nuitka.onefile''"
    by (auto simp: sk_def ok_def)
  have in_keys: "map_of kwargs k = Some v \<Longrightarrow> k \<in> set (map fst kwargs)" for k v
    by (force dest: map_of_SomeD)
  have part1: "reads_false d3 ''nuitka.onefile''"
    if t: "map_of kwargs ''nuitka.standalone'' = Some (VBool True)"
  proof -
    from in_keys [OF t] have sk: "sk = Some ''nuitka.standalone''" by (simp add: sk_def)
    have "reads_false d2 ''nuitka.onefile''"
      using exclude_other_fires [OF d2 [unfolded sk] t ok_cases] by simp
    with exclude_other_keeps [of kwargs ok "''nuitka.standalone''" d2 d3 "''nuitka.onefile''"]
      d3 sk ok_cases show ?thesis by simp
  qed
  have part2: "reads_false d3 ''nuitka.standalone''"
    if t: "map_of kwargs ''nuitka.onefile'' = Some (VBool True)"
  proof -
    from in_keys [OF t] have ok: "ok = Some ''nuitka.onefile''" by (simp add: ok_def)
    show ?thesis
      using exclude_other_fires [OF d3 [unfolded ok] t sk_cases] by simp
  qed
  have part3: "\<not> (flag_is_true d3 ''nuitka.standalone'' \<and> flag_is_true d3 ''nuitka.onefile'')"
    if nosec: "''nuitka'' \<notin> set (map fst kwargs)"
      and inv: "\<not> (flag_is_true d0 ''nuitka.standalone'' \<and> flag_is_true d0 ''nuitka.onefile'')"
  proof (cases "map_of kwargs ''nuitka.standalone'' = Some (VBool True)
              \<or> map_of kwargs ''nuitka.onefile'' = Some (VBool True)")
    case True
    then show ?thesis using part1 part2 reads_false_not_true by blast
  next
    case False
    have "exclude_other kwargs sk ok ''nuitka.onefile'' d1 = Inr d1"
      using False sk_cases by (intro exclude_other_idle) auto
    with d2 have "d2 = d1" by simp
    have "exclude_other kwargs ok sk ''nuitka.standalone'' d2 = Inr d2"
      using False ok_cases by (intro exclude_other_idle) auto
    with d3 \<open>d2 = d1\<close> have "d3 = d1" by simp
    have fa: "flag_is_true d1 ''nuitka.standalone''
            = (case map_of kwargs ''nuitka.standalone'' of Some v \<Rightarrow> v = VBool True
               | None \<Rightarrow> flag_is_true d0 ''nuitka.standalone'')"
      unfolding flag_is_true_path
      by (rule update_each_flag [OF d1 dist nosec keys_sa split_sa])
    have fb: "flag_is_true d1 ''nuitka.onefile''
            = (case map_of kwargs ''nuitka.onefile'' of Some v \<Rightarrow> v = VBool True
               | None \<Rightarrow> flag_is_true d0 ''nuitka.onefile'')"
      unfolding flag_is_true_path
      by (rule update_each_flag [OF d1 dist nosec keys_of split_of])
    from False inv show ?thesis unfolding \<open>d3 = d1\<close> fa fb
      by (auto split: option.splits)
  qed
  from part1 part2 part3 st' show ?thesis by simp
qed

theorem update_mutual_exclusion_witness:
  "update [(''nuitka.standalone'', VBool True)]
     (init [(''nuitka'', VDict [(''standalone'', VBool False), (''onefile'', VBool True)])])
   = Inr (init [(''nuitka'', VDict [(''standalone'', VBool True), (''onefile'', VBool False)])])
   \<and> reads_false [(''nuitka'', VDict [(''standalone'', VBool True), (''onefile'', VBool False)])]
        ''nuitka.onefile''
   \<and> \<not> (flag_is_true [(''nuitka'', VDict [(''standalone'', VBool True), (''onefile'', VBool False)])]
          ''nuitka.standalone''
        \<and> flag_is_true [(''nuitka'', VDict [(''standalone'', VBool True), (''onefile'', VBool False)])]
          ''nuitka.onefile'')"
proof -
  let ?kw = "[(''nuitka.standalone'', VBool True)]"
  let ?d0 = "[(''nuitka'', VDict [(''standalone'', VBool False), (''onefile'', VBool True)])]"
  let ?d' = "[(''nuitka'', VDict [(''standalone'', VBool True), (''onefile'', VBool False)])]"
  have run: "update ?kw (init ?d0) = Inr (init ?d')"
    by (simp add: eval_update)
  have loaded: "ensure_loaded (init ?d0) = Inr (?d0, init ?d0)"
    by (simp add: ensure_loaded_def init_def)
  have k1: "\<forall>k \<in> set (map fst ?kw). py_in ''standalone'' k \<longrightarrow> k = ''nuitka.standalone''"
    and k2: "\<forall>k \<in> set (map fst ?kw). py_in ''onefile'' k \<longrightarrow> k = ''nuitka.onefile''"
    and k3: "distinct (map fst ?kw)" and k4: "''nuitka'' \<notin> set (map fst ?kw)"
    by simp_all
  have inv: "\<not> (flag_is_true ?d0 ''nuitka.standalone'' \<and> flag_is_true ?d0 ''nuitka.onefile'')"
    by (simp add: eval_update)
  from update_mutual_exclusion [OF run loaded k1 k2 k3] k4 inv run
  show ?thesis by (simp add: init_def)
qed

text \<open>
  The claim as it was stated fails in two ways. A document in which both flags are
  \<open>True\<close> keeps both through an update of another key: nothing looks at the flags
  then. And the flag that is switched off is found by a substring test on the keywords,
  so a call that sets \<open>nuitka.standalone\<close> and also names
  \<open>nuitka.onefile-no-compression\<close> switches that key off and leaves \<open>nuitka.onefile\<close>
  as it was.
\<close>

theorem update_mutual_exclusion_counterexample:
  "update [(''nuitka.jobs'', VInt 8)]
     (init [(''nuitka'', VDict [(''standalone'', VBool True), (''onefile'', VBool True)])])
   = Inr (init [(''nuitka'', VDict [(''standalone'', VBool True), (''onefile'', VBool True),
                                    (''jobs'', VInt 8)])])
   \<and> flag_is_true [(''nuitka'', VDict [(''standalone'', VBool True), (''onefile'', VBool True),
                                    (''jobs'', VInt 8)])] ''nuitka.standalone''
   \<and> flag_is_true [(''nuitka'', VDict [(''standalone'', VBool True), (''onefile'', VBool True),
                                    (''jobs'', VInt 8)])] ''nuitka.onefile''
   \<and> update [(''nuitka.standalone'', VBool True), (''nuitka.onefile-no-compression'', VBool False)]
     (init [(''nuitka'', VDict [(''standalone'', VBool False), (''onefile'', VBool True)])])
   = Inr (init [(''nuitka'', VDict [(''standalone'', VBool True), (''onefile'', VBool True),
                                    (''onefile-no-compression'', VBool False)])])"
  by (simp add: eval_update)


section \<open>The command compiler\<close>

lemma endswith_rev: "endswith s p = prefix (rev p) (rev s)"
  by (simp add: endswith_def suffix_to_prefix)

lemmas eval_command = to_command_def ensure_loaded_def init_def command_parts_def
  python_path_def nuitka_items_def SPECIAL_KEYS_def plugin_flags_def embedded_flags_def
  runtime_flags_def endswith_rev

lemmas eval_flags = valued_flag_def quote_path_def replace_char_def

lemma command_parts_runtime:
  assumes "output_dir s1 = output_dir s2" and "output_filename s1 = output_filename s2"
    and "icon_path s1 = icon_path s2" and "entry_file s1 = entry_file s2"
  shows "command_parts d s1 = command_parts d s2"
proof -
  have "runtime_flags s1 = runtime_flags s2"
    using assms(1-3) by (simp add: runtime_flags_def)
  then show ?thesis
    by (simp only: command_parts_def assms(4))
qed

text \<open>
  Claim C1, as amended. For the document whose \<open>nuitka\<close> section is
  \<open>{lto: "auto", quiet: false, output-filename: "app"}\<close>, any interpreter path \<open>p\<close>, the
  runtime values \<open>output-dir = "C:/out"\<close> and \<open>output-filename = "app"\<close> and any entry file
  \<open>e\<close>, the command is, in this order: the interpreter with \<open>-m nuitka\<close>; the flag of the
  output directory with the value \<open>C:/out\<close>; the flag of the output file name with the
  value \<open>app.exe\<close>, the suffix forced onto the runtime value; the flag that the document's
  own key \<open>output-filename\<close> gives, with the value \<open>app\<close>; and the entry file last, when
  there is one. \<open>"auto"\<close> and \<open>False\<close> are sentinels, and no flag \<open>--lto\<close> or \<open>--quiet\<close>
  occurs among the flags. How a flag renders its value is left to \<open>valued_flag\<close>.
\<close>

theorem to_command_example:
  "to_command
     ((init [(''python'', VDict [(''path'', VStr p)]),
             (''nuitka'', VDict [(''lto'', VStr ''auto''), (''quiet'', VBool False),
                                 (''output-filename'', VStr ''app'')])])
        \<lparr>output_dir := ''C:/out'', output_filename := ''app'', entry_file := e\<rparr>)
   = Inr (join '' ''
            ([p, ''-m'', ''nuitka'',
              valued_flag ''output-dir'' ''C:/out'',
              valued_flag ''output-filename'' ''app.exe'',
              valued_flag ''output-filename'' ''app'']
             @ (if e = [] then [] else [quote_path e])),
          (init [(''python'', VDict [(''path'', VStr p)]),
                 (''nuitka'', VDict [(''lto'', VStr ''auto''), (''quiet'', VBool False),
                                     (''output-filename'', VStr ''app'')])])
            \<lparr>output_dir := ''C:/out'', output_filename := ''app'', entry_file := e\<rparr>)
   \<and> is_sentinel (VStr ''auto'') \<and> is_sentinel (VBool False)
   \<and> \<not> py_in ''--lto''
         (join '' '' [valued_flag ''output-dir'' ''C:/out'',
                      valued_flag ''output-filename'' ''app.exe'',
                      valued_flag ''output-filename'' ''app''])
   \<and> \<not> py_in ''--quiet''
         (join '' '' [valued_flag ''output-dir'' ''C:/out'',
                      valued_flag ''output-filename'' ''app.exe'',
                      valued_flag ''output-filename'' ''app''])"
proof -
  have run: "to_command
     ((init [(''python'', VDict [(''path'', VStr p)]),
             (''nuitka'', VDict [(''lto'', VStr ''auto''), (''quiet'', VBool False),
                                 (''output-filename'', VStr ''app'')])])
        \<lparr>output_dir := ''C:/out'', output_filename := ''app'', entry_file := e\<rparr>)
   = Inr (join '' ''
            ([p, ''-m'', ''nuitka'',
              valued_flag ''output-dir'' ''C:/out'',
              valued_flag ''output-filename'' ''app.exe'',
              valued_flag ''output-filename'' ''app'']
             @ (if e = [] then [] else [quote_path e])),
          (init [(''python'', VDict [(''path'', VStr p)]),
                 (''nuitka'', VDict [(''lto'', VStr ''auto''), (''quiet'', VBool False),
                                     (''output-filename'', VStr ''app'')])])
            \<lparr>output_dir := ''C:/out'', output_filename := ''app'', entry_file := e\<rparr>)"
    by (simp add: eval_command)
  have flags: "join '' '' [valued_flag ''output-dir'' ''C:/out'',
                      valued_flag ''output-filename'' ''app.exe'',
                      valued_flag ''output-filename'' ''app'']
      = ''--output-dir=C:/out --output-filename=app.exe --output-filename=app''"
    by (simp add: valued_flag_def quote_path_def replace_char_def)
  have no_lto: "\<not> py_in ''--lto'' ''--output-dir=C:/out --output-filename=app.exe --output-filename=app''"
    by simp
  have no_quiet: "\<not> py_in ''--quiet'' ''--output-dir=C:/out --output-filename=app.exe --output-filename=app''"
    by simp
  show ?thesis using run no_lto no_quiet unfolding flags by simp
qed

text \<open>
  The command of the claim's example does not end in
  \<open>--output-dir="C:/out" --output-filename="app.exe"\<close> and the entry file: the key
  \<open>output-filename\<close> of the document is compiled after the runtime values, and the
  values stand without quotes.
\<close>

theorem to_command_example_counterexample:
  "map_sum id fst (to_command
     ((init [(''python'', VDict [(''path'', VStr ''python'')]),
             (''nuitka'', VDict [(''lto'', VStr ''auto''), (''quiet'', VBool False),
                                 (''output-filename'', VStr ''app'')])])
        \<lparr>output_dir := ''C:/out'', output_filename := ''app'', entry_file := ''main.py''\<rparr>))
   = Inr ''python -m nuitka --output-dir=C:/out --output-filename=app.exe --output-filename=app main.py''
   \<and> \<not> endswith
        ''python -m nuitka --output-dir=C:/out --output-filename=app.exe --output-filename=app main.py''
        (''--output-dir='' @ [CHR 0x22] @ ''C:/out'' @ [CHR 0x22]
         @ '' --output-filename='' @ [CHR 0x22] @ ''app.exe'' @ [CHR 0x22] @ '' main.py'')"
  by (simp add: eval_command eval_flags)

text \<open>
  Claim C3 does not hold of the code. The value \<open>a"b\<close> of the key \<open>company-name\<close> is
  compiled to the flag \<open>--company-name=a\"b\<close>; \<open>_parse_command\<close> splits outside POSIX mode,
  where a backslash escapes nothing, and gives the flag back with the backslash in it.
  The argument that would carry the value \<open>a"b\<close> is not among the tokens.
\<close>

theorem quote_roundtrip_fails:
  "map_sum id fst (to_command
     (init [(''python'', VDict [(''path'', VStr ''python'')]),
            (''nuitka'', VDict [(''company-name'', VStr (''a'' @ [CHR 0x22] @ ''b''))])]))
   = Inr (''python -m nuitka --company-name=a'' @ [CHR 0x5C, CHR 0x22] @ ''b'')
   \<and> parse_command (''python -m nuitka --company-name=a'' @ [CHR 0x5C, CHR 0x22] @ ''b'')
     = [''python'', ''-m'', ''nuitka'', ''--company-name=a'' @ [CHR 0x5C, CHR 0x22] @ ''b'']
   \<and> ''--company-name=a'' @ [CHR 0x22] @ ''b''
       \<notin> set (parse_command (''python -m nuitka --company-name=a'' @ [CHR 0x5C, CHR 0x22] @ ''b''))"
  by (simp add: eval_command eval_flags parse_command_def shlex_split_def shlex_whitespace_def)

lemma resolve_value_plain: "\<not> is_interpolation v \<Longrightarrow> resolve_value env v = Inr v"
  by (cases v) (simp_all add: is_interpolation_def resolve_str_def)

lemma resolve_items_plain:
  "list_all (\<lambda>kv. \<not> is_interpolation (snd kv)) kvs \<Longrightarrow> resolve_items env kvs = Inr kvs"
  by (induction kvs) (auto simp: resolve_value_plain)

lemma command_parts_read:
  assumes "python_path d = Inr python" and "nuitka_items d = Inr nuitka"
  shows "command_parts [(''python'', VDict [(''path'', python)]), (''nuitka'', VDict nuitka)] st
       = command_parts d st"
proof -
  have "python_path [(''python'', VDict [(''path'', python)]), (''nuitka'', VDict nuitka)]
      = Inr python"
    by (simp add: python_path_def)
  moreover have "nuitka_items [(''python'', VDict [(''path'', python)]), (''nuitka'', VDict nuitka)]
      = Inr nuitka"
    by (cases nuitka) (simp_all add: nuitka_items_def)
  ultimately show ?thesis
    by (simp only: command_parts_def assms)
qed

lemma to_command_in_plain:
  assumes "reads_no_interpolation d" and "config st = Some d"
  shows "to_command_in env st = to_command st"
proof -
  have el: "ensure_loaded st = Inr (d, st)"
    using assms(2) by (simp add: ensure_loaded_def)
  have scope: "\<not> unmodelled_interpolation d"
    using assms(1) by (simp add: reads_no_interpolation_def)
  show ?thesis
  proof (cases "python_path d")
    case (Inl e)
    then show ?thesis
      by (simp add: to_command_in_def to_command_def el scope command_parts_def)
  next
    case python: (Inr python)
    then have rp: "resolve_value env python = Inr python"
      using assms(1) by (simp add: reads_no_interpolation_def resolve_value_plain)
    show ?thesis
    proof (cases "nuitka_items d")
      case (Inl e)
      then show ?thesis
        by (simp add: to_command_in_def to_command_def el scope python rp command_parts_def)
    next
      case nuitka: (Inr nuitka)
      then have rn: "resolve_items env nuitka = Inr nuitka"
        using assms(1) by (simp add: reads_no_interpolation_def resolve_items_plain)
      show ?thesis
        by (simp add: to_command_in_def to_command_def el scope python rp nuitka rn
            command_parts_read [OF python nuitka])
    qed
  qed
qed

text \<open>
  Claim C8, as amended. On a document in which \<open>to_command\<close> reads no interpolation,
  the command is the same in every environment, and it is a function of the document
  in memory and of the four runtime values: two objects that agree on these give the
  same result in any two environments, whatever the rest of their state (the
  configuration file, the deletion mark). A call on a loaded object leaves the object
  as it was, so a second call gives the same command again, also when the environment
  has changed in between.
\<close>

theorem to_command_env_independent:
  assumes "config s1 = Some d" and "config s2 = Some d" and "reads_no_interpolation d"
    and "output_dir s1 = output_dir s2" and "output_filename s1 = output_filename s2"
    and "icon_path s1 = icon_path s2" and "entry_file s1 = entry_file s2"
  shows "map_sum id fst (to_command_in env1 s1) = map_sum id fst (to_command_in env2 s2)
       \<and> (\<forall>cmd s'. to_command_in env1 s1 = Inr (cmd, s')
            \<longrightarrow> s' = s1 \<and> to_command_in env2 s' = Inr (cmd, s'))"
proof -
  have parts: "command_parts d s1 = command_parts d s2"
    using assms(4-7) by (rule command_parts_runtime)
  have e1: "to_command_in env s1 = to_command s1" for env
    using assms(3,1) by (rule to_command_in_plain)
  have e2: "to_command_in env2 s2 = to_command s2"
    using assms(3,2) by (rule to_command_in_plain)
  from parts assms(1,2) show ?thesis
    by (auto simp: e1 e2 to_command_def ensure_loaded_def split: sum.splits)
qed

theorem to_command_env_independent_witness:
  "map_sum id fst (to_command_in (map_of [(''COMPANY'', ''Acme'')])
     ((init [(''python'', VDict [(''path'', VStr ''python'')]),
             (''nuitka'', VDict [(''standalone'', VBool True), (''jobs'', VInt 8),
                                 (''company-name'', VStr ''Acme $ Co'')])])
        \<lparr>entry_file := ''main.py''\<rparr>))
   = map_sum id fst (to_command_in (map_of [])
     ((init [(''python'', VDict [(''path'', VStr ''python'')]),
             (''nuitka'', VDict [(''standalone'', VBool True), (''jobs'', VInt 8),
                                 (''company-name'', VStr ''Acme $ Co'')])])
        \<lparr>entry_file := ''main.py'', deleted := True, config_file := None\<rparr>))
   \<and> map_sum id fst (to_command_in (map_of [(''COMPANY'', ''Acme'')])
     ((init [(''python'', VDict [(''path'', VStr ''python'')]),
             (''nuitka'', VDict [(''standalone'', VBool True), (''jobs'', VInt 8),
                                 (''company-name'', VStr ''Acme $ Co'')])])
        \<lparr>entry_file := ''main.py''\<rparr>))
   = Inr ''python -m nuitka --standalone --jobs=8 --company-name=Acme $ Co main.py''"
proof -
  let ?d = "[(''python'', VDict [(''path'', VStr ''python'')]),
             (''nuitka'', VDict [(''standalone'', VBool True), (''jobs'', VInt 8),
                                 (''company-name'', VStr ''Acme $ Co'')])]"
  let ?s1 = "(init ?d)\<lparr>entry_file := ''main.py''\<rparr>"
  let ?s2 = "(init ?d)\<lparr>entry_file := ''main.py'', deleted := True, config_file := None\<rparr>"
  have plain: "reads_no_interpolation ?d"
    by code_simp
  have "config ?s1 = Some ?d" "config ?s2 = Some ?d" "reads_no_interpolation ?d"
    "output_dir ?s1 = output_dir ?s2" "output_filename ?s1 = output_filename ?s2"
    "icon_path ?s1 = icon_path ?s2" "entry_file ?s1 = entry_file ?s2"
    by (simp_all add: init_def plain)
  from to_command_env_independent [OF this, of "map_of [(''COMPANY'', ''Acme'')]" "map_of []"]
  have same: "map_sum id fst (to_command_in (map_of [(''COMPANY'', ''Acme'')]) ?s1)
      = map_sum id fst (to_command_in (map_of []) ?s2)" by blast
  have "map_sum id fst (to_command_in (map_of [(''COMPANY'', ''Acme'')]) ?s1)
      = Inr ''python -m nuitka --standalone --jobs=8 --company-name=Acme $ Co main.py''"
    by code_simp
  with same show ?thesis by simp
qed

text \<open>
  The claim as it was stated covers every snapshot and rules out a dependence on the
  environment. The document below gives the company name as the interpolation
  \<open>${oc.env:COMPANY}\<close>. With the same object and the same runtime values, the command
  names the company \<open>Acme\<close> in an environment where the variable has that value and
  \<open>Other\<close> where it has that one, and the call raises where the variable is not set.
\<close>

theorem to_command_env_independent_counterexample:
  "map_sum id fst (to_command_in (map_of [(''COMPANY'', ''Acme'')])
     ((init [(''python'', VDict [(''path'', VStr ''python'')]),
             (''nuitka'', VDict [(''standalone'', VBool True),
                                 (''company-name'', VStr ''${oc.env:COMPANY}'')])])
        \<lparr>entry_file := ''main.py''\<rparr>))
   = Inr ''python -m nuitka --standalone --company-name=Acme main.py''
   \<and> map_sum id fst (to_command_in (map_of [(''COMPANY'', ''Other'')])
     ((init [(''python'', VDict [(''path'', VStr ''python'')]),
             (''nuitka'', VDict [(''standalone'', VBool True),
                                 (''company-name'', VStr ''${oc.env:COMPANY}'')])])
        \<lparr>entry_file := ''main.py''\<rparr>))
   = Inr ''python -m nuitka --standalone --company-name=Other main.py''
   \<and> map_sum id fst (to_command_in (map_of [])
     ((init [(''python'', VDict [(''path'', VStr ''python'')]),
             (''nuitka'', VDict [(''standalone'', VBool True),
                                 (''company-name'', VStr ''${oc.env:COMPANY}'')])])
        \<lparr>entry_file := ''main.py''\<rparr>))
   = Inl OmegaConfError"
  by code_simp


section \<open>The process runner\<close>

lemma write_log_frame [simp]:
  "task (write_log w t msg r) = task r"
  "process (write_log w t msg r) = process r"
  "running (write_log w t msg r) = running r"
  "log_file (write_log w t msg r) = log_file r"
  "signals (write_log w t msg r) = signals r"
  "os_actions (write_log w t msg r) = os_actions r"
  by (simp_all add: write_log_def)

lemma close_log_file_frame [simp]:
  "task (close_log_file r) = task r"
  "process (close_log_file r) = process r"
  "running (close_log_file r) = running r"
  "log_file (close_log_file r) = False"
  "log_written (close_log_file r) = log_written r"
  "signals (close_log_file r) = signals r"
  "os_actions (close_log_file r) = os_actions r"
  by (simp_all add: close_log_file_def)

lemma emit_frame [simp]:
  "task (emit s r) = task r"
  "process (emit s r) = process r"
  "running (emit s r) = running r"
  "log_file (emit s r) = log_file r"
  "log_written (emit s r) = log_written r"
  "signals (emit s r) = signals r @ [s]"
  "os_actions (emit s r) = os_actions r"
  by (simp_all add: emit_def)

lemma handle_output_frame [simp]:
  "process (handle_output w t line r) = process r"
  "running (handle_output w t line r) = running r"
  "log_file (handle_output w t line r) = log_file r"
  "signals (handle_output w t line r) = signals r"
  "os_actions (handle_output w t line r) = os_actions r"
  "status (task (handle_output w t line r)) = status (task r)"
  "command (task (handle_output w t line r)) = command (task r)"
  "start_time (task (handle_output w t line r)) = start_time (task r)"
  by (simp_all add: handle_output_def Let_def split: option.splits)

lemma read_output_frame [simp]:
  "process (read_output w out r) = process r"
  "running (read_output w out r) = running r"
  "log_file (read_output w out r) = log_file r"
  "signals (read_output w out r) = signals r"
  "os_actions (read_output w out r) = os_actions r"
  "status (task (read_output w out r)) = status (task r)"
  "command (task (read_output w out r)) = command (task r)"
  "start_time (task (read_output w out r)) = start_time (task r)"
  by (induction w out r rule: read_output.induct; simp)+

lemma open_log_file_frame:
  assumes "open_log_file w r = Inr r1"
  shows "task r1 = task r" "process r1 = process r" "running r1 = running r"
    "signals r1 = signals r" "os_actions r1 = os_actions r"
  using assms by (auto simp: open_log_file_def split: option.splits if_splits)

lemma open_log_file_opens:
  "log_opens w r \<Longrightarrow> \<exists>r1. open_log_file w r = Inr r1"
  by (auto simp: open_log_file_def log_opens_def split: option.splits)

lemma open_log_file_fails:
  "\<not> log_opens w r \<Longrightarrow> \<exists>e. open_log_file w r = Inl e"
  by (auto simp: open_log_file_def log_opens_def split: option.splits)

lemma log_opens_started [simp]: "log_opens w (started r w) = log_opens w r"
  by (simp add: log_opens_def started_def)

lemma run_unfold:
  "run w r =
     (case open_log_file w (started r w) of
        Inl e \<Rightarrow>
          (emit (build_failed (msg_log_create_failed @ e))
             ((started r w)\<lparr>task := (task (started r w))\<lparr>status := FAILED, end_time := Some (t_start w)\<rparr>\<rparr>))
            \<lparr>running := False\<rparr>
      | Inr r1 \<Rightarrow>
          (case run_body w r1 of
             Inr r2 \<Rightarrow> r2
           | Inl (FileNotFoundError e, r2) \<Rightarrow> run_failed w (msg_nuitka_not_found @ e) r2
           | Inl (OtherException e, r2) \<Rightarrow> run_failed w (msg_build_error @ e) r2)
            \<lparr>running := False\<rparr>)"
  by (simp only: run_def started_def Let_def)

lemma run_failed_frame [simp]:
  "status (task (run_failed w msg r)) = FAILED"
  "end_time (task (run_failed w msg r)) = Some (t_end w)"
  "signals (run_failed w msg r) = signals r @ [build_failed msg]"
  "process (run_failed w msg r) = process r"
  by (simp_all add: run_failed_def)

lemma run_exit:
  assumes "log_opens w r"
    and "spawn w (parse_command (command (task r))) = Started pid out (Exited code)"
  shows "status (task (run w r)) = (if code = 0 then COMPLETED else FAILED)"
    and "end_time (task (run w r)) = Some (t_end w)"
    and "exit_code (task (run w r)) = Some code"
    and "signals (run w r) = signals r
           @ [if code = 0 then build_finished code
              else build_failed (msg_build_failed @ py_str_int code)]"
    and "process (run w r) = Some pid"
    and "\<not> running (run w r)"
proof -
  from assms(1) obtain r1 where r1: "open_log_file w (started r w) = Inr r1"
    using open_log_file_opens [of w "started r w"] by auto
  note fr = open_log_file_frame [OF r1]
  have cmd: "command (task r1) = command (task r)" by (simp add: fr started_def)
  have sig: "signals r1 = signals r" by (simp add: fr started_def)
  show "status (task (run w r)) = (if code = 0 then COMPLETED else FAILED)"
    and "end_time (task (run w r)) = Some (t_end w)"
    and "exit_code (task (run w r)) = Some code"
    and "signals (run w r) = signals r
           @ [if code = 0 then build_finished code
              else build_failed (msg_build_failed @ py_str_int code)]"
    and "process (run w r) = Some pid"
    and "\<not> running (run w r)"
    using assms(2) by (simp_all add: run_unfold r1 run_body_def cmd sig Let_def)
qed

lemma run_spawn_fails:
  assumes "log_opens w r"
    and "spawn w (parse_command (command (task r))) = NotFound e \<and> msg = msg_nuitka_not_found @ e
       \<or> spawn w (parse_command (command (task r))) = Refused e \<and> msg = msg_build_error @ e"
  shows "status (task (run w r)) = FAILED"
    and "end_time (task (run w r)) = Some (t_end w)"
    and "signals (run w r) = signals r @ [build_failed msg]"
    and "process (run w r) = process r"
    and "\<not> running (run w r)"
proof -
  from assms(1) obtain r1 where r1: "open_log_file w (started r w) = Inr r1"
    using open_log_file_opens [of w "started r w"] by auto
  note fr = open_log_file_frame [OF r1]
  have cmd: "command (task r1) = command (task r)" by (simp add: fr started_def)
  have sig: "signals r1 = signals r" "process r1 = process r" by (simp_all add: fr started_def)
  show "status (task (run w r)) = FAILED"
    and "end_time (task (run w r)) = Some (t_end w)"
    and "signals (run w r) = signals r @ [build_failed msg]"
    and "process (run w r) = process r"
    and "\<not> running (run w r)"
    using assms(2) by (auto simp: run_unfold r1 run_body_def cmd sig Let_def)
qed

lemma run_breaks:
  assumes "log_opens w r"
    and "spawn w (parse_command (command (task r))) = Started pid out (Broke e)"
  shows "status (task (run w r)) = FAILED"
    and "end_time (task (run w r)) = Some (t_end w)"
    and "signals (run w r) = signals r @ [build_failed (msg_build_error @ e)]"
    and "\<not> running (run w r)"
proof -
  from assms(1) obtain r1 where r1: "open_log_file w (started r w) = Inr r1"
    using open_log_file_opens [of w "started r w"] by auto
  note fr = open_log_file_frame [OF r1]
  have cmd: "command (task r1) = command (task r)" by (simp add: fr started_def)
  have sig: "signals r1 = signals r" by (simp add: fr started_def)
  show "status (task (run w r)) = FAILED"
    and "end_time (task (run w r)) = Some (t_end w)"
    and "signals (run w r) = signals r @ [build_failed (msg_build_error @ e)]"
    and "\<not> running (run w r)"
    using assms(2) by (simp_all add: run_unfold r1 run_body_def cmd sig Let_def)
qed

lemma run_no_log:
  assumes "\<not> log_opens w r"
  shows "status (task (run w r)) = FAILED"
    and "end_time (task (run w r)) = Some (t_start w)"
    and "\<exists>e. signals (run w r) = signals r @ [build_failed (msg_log_create_failed @ e)]"
    and "process (run w r) = process r"
    and "\<not> running (run w r)"
proof -
  from assms obtain e where e: "open_log_file w (started r w) = Inl e"
    using open_log_file_fails [of w "started r w"] by auto
  show "status (task (run w r)) = FAILED"
    and "end_time (task (run w r)) = Some (t_start w)"
    and "\<exists>e. signals (run w r) = signals r @ [build_failed (msg_log_create_failed @ e)]"
    and "process (run w r) = process r"
    and "\<not> running (run w r)"
    by (simp_all add: run_unfold e) (simp_all add: started_def)
qed

lemma run_not_running: "\<not> running (run w r)"
  by (simp add: run_unfold split: sum.splits prod.splits exn.splits)

lemma terminate_process_fallback_frame [simp]:
  "task (terminate_process_fallback w pid r) = task r"
  "process (terminate_process_fallback w pid r) = process r"
  "running (terminate_process_fallback w pid r) = running r"
  "log_file (terminate_process_fallback w pid r) = log_file r"
  "log_written (terminate_process_fallback w pid r) = log_written r"
  "signals (terminate_process_fallback w pid r) = signals r"
  by (simp_all add: terminate_process_fallback_def split: terminate_result.splits)

lemmas eval_runner = run_def run_body_def run_failed_def open_log_file_def write_log_def
  close_log_file_def emit_def handle_output_def parse_progress_def progress_keywords_def
  lower_def ascii_lower_def rstrip_def is_digit_def int_of_digits_def new_runner_def
  new_task_def parse_command_def shlex_split_def shlex_whitespace_def log_opens_def
  stop_def is_running_def terminate_process_fallback_def Let_def

text \<open>
  Claim C5. For every run, once the log file is open (or the task has none): a process
  that exits with code zero leaves the task \<open>COMPLETED\<close>, with the end time and the
  exit code recorded and \<open>build_finished\<close> emitted; a process that exits with another
  code leaves it \<open>FAILED\<close>, with the message that carries the code emitted as
  \<open>build_failed\<close>; an executable that is not found, any other exception of the spawn,
  and an exception while the output is read all leave it \<open>FAILED\<close> with their message
  emitted, and after a failed spawn the runner holds no new process. Whatever the
  world answers, \<open>run\<close> returns with the task in a terminal status, an end time
  recorded and the running flag cleared: no exception of the \<open>try\<close> block escapes.
\<close>

theorem run_reports_outcome:
  "(log_opens w r \<and> spawn w (parse_command (command (task r))) = Started pid out (Exited 0)
      \<longrightarrow> status (task (run w r)) = COMPLETED
        \<and> end_time (task (run w r)) = Some (t_end w)
        \<and> exit_code (task (run w r)) = Some 0
        \<and> signals (run w r) = signals r @ [build_finished 0])
   \<and> (log_opens w r \<and> spawn w (parse_command (command (task r))) = Started pid out (Exited code)
        \<and> code \<noteq> 0
      \<longrightarrow> status (task (run w r)) = FAILED
        \<and> end_time (task (run w r)) = Some (t_end w)
        \<and> exit_code (task (run w r)) = Some code
        \<and> signals (run w r) = signals r @ [build_failed (msg_build_failed @ py_str_int code)])
   \<and> (log_opens w r \<and> spawn w (parse_command (command (task r))) = NotFound e
      \<longrightarrow> status (task (run w r)) = FAILED
        \<and> end_time (task (run w r)) = Some (t_end w)
        \<and> signals (run w r) = signals r @ [build_failed (msg_nuitka_not_found @ e)]
        \<and> process (run w r) = process r)
   \<and> (log_opens w r \<and> spawn w (parse_command (command (task r))) = Refused e
      \<longrightarrow> status (task (run w r)) = FAILED
        \<and> end_time (task (run w r)) = Some (t_end w)
        \<and> signals (run w r) = signals r @ [build_failed (msg_build_error @ e)]
        \<and> process (run w r) = process r)
   \<and> (log_opens w r \<and> spawn w (parse_command (command (task r))) = Started pid out (Broke e)
      \<longrightarrow> status (task (run w r)) = FAILED
        \<and> end_time (task (run w r)) = Some (t_end w)
        \<and> signals (run w r) = signals r @ [build_failed (msg_build_error @ e)])
   \<and> (status (task (run w r)) = COMPLETED \<or> status (task (run w r)) = FAILED)
   \<and> end_time (task (run w r)) \<noteq> None
   \<and> \<not> running (run w r)"
proof -
  have terminal: "(status (task (run w r)) = COMPLETED \<or> status (task (run w r)) = FAILED)
      \<and> end_time (task (run w r)) \<noteq> None"
  proof (cases "log_opens w r")
    case False
    from run_no_log(1,2) [OF this] show ?thesis by simp
  next
    case True
    show ?thesis
    proof (cases "spawn w (parse_command (command (task r)))")
      case (Started p out' ending)
      show ?thesis
      proof (cases ending)
        case (Exited c)
        with run_exit(1,2) [OF True, of p out' c] Started show ?thesis by simp
      next
        case (Broke m)
        with run_breaks(1,2) [OF True, of p out' m] Started show ?thesis by simp
      qed
    next
      case (NotFound m)
      with run_spawn_fails(1,2) [OF True, of m "msg_nuitka_not_found @ m"] show ?thesis by simp
    next
      case (Refused m)
      with run_spawn_fails(1,2) [OF True, of m "msg_build_error @ m"] show ?thesis by simp
    qed
  qed
  show ?thesis
    using terminal run_not_running [of w r]
      run_exit [of w r pid out 0] run_exit [of w r pid out code]
      run_spawn_fails [of w r e "msg_nuitka_not_found @ e"]
      run_spawn_fails [of w r e "msg_build_error @ e"]
      run_breaks [of w r pid out e]
    by simp
qed

theorem run_reports_outcome_witness:
  "status (task (run
      \<lparr>strftime = (\<lambda>t. ''now''), open_log = (\<lambda>p. None),
       spawn = (\<lambda>args. Started 4242 [(1, ''Compiling module X'' @ [CHR 0x0A]),
                                        (2, ''45%'' @ [CHR 0x0A])] (Exited 0)),
       t_start = 0, t_end = 3, win32 = True, taskkill_raises = False,
       terminate_outcome = Stopped\<rparr>
      (new_runner ((new_task ''1'')\<lparr>command := ''python -m nuitka main.py'',
                                      log_file_path := Some ''out/nuitka_build.log''\<rparr>)))) = COMPLETED
   \<and> end_time (task (run
      \<lparr>strftime = (\<lambda>t. ''now''), open_log = (\<lambda>p. None),
       spawn = (\<lambda>args. Started 4242 [(1, ''Compiling module X'' @ [CHR 0x0A]),
                                        (2, ''45%'' @ [CHR 0x0A])] (Exited 0)),
       t_start = 0, t_end = 3, win32 = True, taskkill_raises = False,
       terminate_outcome = Stopped\<rparr>
      (new_runner ((new_task ''1'')\<lparr>command := ''python -m nuitka main.py'',
                                      log_file_path := Some ''out/nuitka_build.log''\<rparr>)))) = Some 3
   \<and> progress (task (run
      \<lparr>strftime = (\<lambda>t. ''now''), open_log = (\<lambda>p. None),
       spawn = (\<lambda>args. Started 4242 [(1, ''Compiling module X'' @ [CHR 0x0A]),
                                        (2, ''45%'' @ [CHR 0x0A])] (Exited 0)),
       t_start = 0, t_end = 3, win32 = True, taskkill_raises = False,
       terminate_outcome = Stopped\<rparr>
      (new_runner ((new_task ''1'')\<lparr>command := ''python -m nuitka main.py'',
                                      log_file_path := Some ''out/nuitka_build.log''\<rparr>)))) = 45"
proof -
  let ?w = "\<lparr>strftime = (\<lambda>t. ''now''), open_log = (\<lambda>p. None),
       spawn = (\<lambda>args. Started 4242 [(1, ''Compiling module X'' @ [CHR 0x0A]),
                                        (2, ''45%'' @ [CHR 0x0A])] (Exited 0)),
       t_start = 0, t_end = 3, win32 = True, taskkill_raises = False,
       terminate_outcome = Stopped\<rparr>"
  let ?r = "new_runner ((new_task ''1'')\<lparr>command := ''python -m nuitka main.py'',
                                      log_file_path := Some ''out/nuitka_build.log''\<rparr>)"
  have lo: "log_opens ?w ?r"
    by (simp add: log_opens_def new_runner_def new_task_def)
  have sp: "spawn ?w (parse_command (command (task ?r)))
      = Started 4242 [(1, ''Compiling module X'' @ [CHR 0x0A]), (2, ''45%'' @ [CHR 0x0A])] (Exited 0)"
    by simp
  have pr: "progress (task (run ?w ?r)) = 45"
    by code_simp
  from run_reports_outcome [of ?w ?r 4242
      "[(1, ''Compiling module X'' @ [CHR 0x0A]), (2, ''45%'' @ [CHR 0x0A])]"] lo sp pr
  show ?thesis by simp
qed


lemma run_body_finish:
  "run_body w r =
     (case spawn w (parse_command (command (task r))) of
        NotFound e \<Rightarrow> Inl (FileNotFoundError e, r)
      | Refused e \<Rightarrow> Inl (OtherException e, r)
      | Started pid output ending \<Rightarrow>
          run_finish w ending (read_output w output (r\<lparr>process := Some pid\<rparr>)))"
  by (simp add: run_body_def run_finish_def Let_def split: spawn_outcome.splits proc_end.splits)

lemma run_pieces:
  "run w r =
     (case open_log_file w (started r w) of
        Inl e \<Rightarrow>
          (emit (build_failed (msg_log_create_failed @ e))
             ((started r w)\<lparr>task := (task (started r w))\<lparr>status := FAILED, end_time := Some (t_start w)\<rparr>\<rparr>))
            \<lparr>running := False\<rparr>
      | Inr r1 \<Rightarrow> run_handlers w (run_body w r1))"
  by (simp only: run_unfold run_handlers_def)

lemma read_output_append:
  assumes "\<forall>(t, line) \<in> set xs. line \<noteq> []"
  shows "read_output w (xs @ ys) r = read_output w ys (read_output w xs r)"
  using assms by (induction xs arbitrary: r) auto

lemma read_output_takeWhile:
  "read_output w (takeWhile (\<lambda>(t, line). line \<noteq> []) out) r = read_output w out r"
  by (induction w out r rule: read_output.induct) auto

lemma read_output_split:
  "read_output w (drop k (takeWhile (\<lambda>(t, line). line \<noteq> []) out))
     (read_output w (take k (takeWhile (\<lambda>(t, line). line \<noteq> []) out)) r)
   = read_output w out r"
proof -
  let ?ls = "takeWhile (\<lambda>(t, line). line \<noteq> []) out"
  have "\<forall>(t, line) \<in> set (take k ?ls). line \<noteq> []"
    by (auto dest!: in_set_takeD set_takeWhileD)
  from read_output_append [OF this, of w "drop k ?ls" r]
  show ?thesis by (simp add: read_output_takeWhile)
qed

text \<open>
  The pieces are those of \<open>run\<close>: with the \<open>stop\<close> taken out of \<open>run_stopped\<close>, what is
  left is \<open>run\<close> itself, wherever the output is cut.
\<close>

lemma run_without_stop:
  "run w r =
     (case run_until w k r of
        None \<Rightarrow> run w r
      | Some (rk, rest, ending) \<Rightarrow> run_handlers w (run_finish w ending (read_output w rest rk)))"
  by (auto simp: run_pieces run_until_def run_body_finish read_output_split Let_def
      split: sum.splits spawn_outcome.splits)











section \<open>The log tailer\<close>

lemma universal_newlines_plain [simp]:
  "c \<noteq> CHR 0x0D \<Longrightarrow> universal_newlines (c # cs) = c # universal_newlines cs"
  by (cases cs) auto

lemma universal_newlines_crlf [simp]:
  "universal_newlines (CHR 0x0D # CHR 0x0A # cs) = CHR 0x0A # universal_newlines cs"
  by simp

lemma universal_newlines_line:
  assumes "\<forall>c \<in> set l. c \<noteq> CHR 0x0A \<and> c \<noteq> CHR 0x0D"
    and "e = [CHR 0x0A] \<or> e = [CHR 0x0D, CHR 0x0A]"
  shows "universal_newlines (l @ e @ rest) = l @ [CHR 0x0A] @ universal_newlines rest"
  using assms(1)
proof (induction l)
  case Nil
  from assms(2) show ?case by (auto simp del: universal_newlines.simps)
next
  case (Cons c l)
  then show ?case by (simp del: universal_newlines.simps)
qed

lemma split_keepends_line:
  assumes "\<forall>c \<in> set l. c \<noteq> CHR 0x0A"
  shows "split_keepends cur (l @ [CHR 0x0A] @ rest) = (cur @ l @ [CHR 0x0A]) # split_keepends [] rest"
  using assms by (induction l arbitrary: cur) auto

lemma readlines_lines:
  assumes "well_formed_lines les"
  shows "readlines (concat (map (\<lambda>(l, e). l @ e) les)) = map (\<lambda>(l, e). l @ [CHR 0x0A]) les"
  using assms
proof (induction les)
  case Nil
  then show ?case by (simp add: readlines_def)
next
  case (Cons le les)
  obtain l e where le: "le = (l, e)" by (cases le)
  from Cons.prems le have l: "\<forall>c \<in> set l. c \<noteq> CHR 0x0A \<and> c \<noteq> CHR 0x0D"
    and e: "e = [CHR 0x0A] \<or> e = [CHR 0x0D, CHR 0x0A]" and wf: "well_formed_lines les"
    by (auto simp: well_formed_lines_def list_all_iff)
  have "universal_newlines (l @ e @ concat (map (\<lambda>(l, e). l @ e) les))
      = l @ [CHR 0x0A] @ universal_newlines (concat (map (\<lambda>(l, e). l @ e) les))"
    by (rule universal_newlines_line [OF l e])
  moreover have "split_keepends [] (l @ [CHR 0x0A] @ universal_newlines (concat (map (\<lambda>(l, e). l @ e) les)))
      = ([] @ l @ [CHR 0x0A]) # split_keepends [] (universal_newlines (concat (map (\<lambda>(l, e). l @ e) les)))"
    using l by (intro split_keepends_line) auto
  ultimately show ?case
    using Cons.IH [OF wf] le by (simp add: readlines_def)
qed

lemma rstrip_line:
  assumes "\<forall>c \<in> set l. c \<notin> S" and "x \<in> S"
  shows "rstrip S (l @ [x]) = l"
proof -
  have "dropWhile (\<lambda>c. c \<in> S) (rev l) = rev l"
    using assms(1) by (cases "rev l") (auto simp: rev_eq_Cons_iff)
  with assms(2) show ?thesis by (simp add: rstrip_def)
qed

lemma filtered_lines_lines:
  assumes "well_formed_lines les"
  shows "filtered_lines (map (\<lambda>(l, e). l @ [CHR 0x0A]) les) = filter (\<lambda>l. l \<noteq> []) (map fst les)"
  using assms
proof (induction les)
  case Nil
  then show ?case by (simp add: filtered_lines_def)
next
  case (Cons le les)
  obtain l e where le: "le = (l, e)" by (cases le)
  from Cons.prems le have l: "\<forall>c \<in> set l. c \<notin> {CHR 0x0A, CHR 0x0D}"
    and wf: "well_formed_lines les"
    by (auto simp: well_formed_lines_def list_all_iff)
  have "rstrip {CHR 0x0A, CHR 0x0D} (l @ [CHR 0x0A]) = l"
    by (rule rstrip_line [OF l]) simp
  with Cons.IH [OF wf] le show ?case by (simp add: filtered_lines_def)
qed

lemma batch_of_lines:
  assumes "well_formed_lines les"
  shows "batch_of (concat (map (\<lambda>(l, e). l @ e) les))
       = (if filter (\<lambda>l. l \<noteq> []) (map fst les) = [] then []
          else [logs_received (filter (\<lambda>l. l \<noteq> []) (map fst les))])"
  by (simp add: batch_of_def readlines_lines [OF assms] filtered_lines_lines [OF assms])

lemma read_new_logs_present:
  assumes "log_file_exists r"
  shows "read_new_logs (poll_present content) r =
     (if length content \<le> last_position r then r
      else r\<lparr>last_position := length content,
             reader_signals := reader_signals r @ batch_of (drop (last_position r) content)\<rparr>)"
  using assms
  by (auto simp: read_new_logs_def poll_present_def batch_of_def Let_def filtered_lines_def)

lemma read_new_logs_fresh:
  assumes "\<not> log_file_exists r"
  shows "read_new_logs (poll_present content) r =
     r\<lparr>log_file_exists := True, last_position := length content,
       reader_signals := reader_signals r @ batch_of content\<rparr>"
  using assms by (auto simp: read_new_logs_def poll_present_def batch_of_def Let_def readlines_def filtered_lines_def)

lemmas eval_reader = read_new_logs_def poll_present_def poll_absent_def new_reader_def
  readlines_def filtered_lines_def rstrip_def batch_of_def well_formed_lines_def Let_def

text \<open>
  Claim C4, as amended. Let the file be there at the last poll, with the stored position
  at its end, and let it grow by \<open>N\<close> lines before the next poll. That poll delivers at
  most one event: when one of the \<open>N\<close> lines is not empty, exactly one batch with the
  lines that are not empty, in their order and without their line ends; when all of them
  are empty (or \<open>N\<close> is zero), none. In both cases the stored position is the end of the
  file afterwards, and nothing else of the tailer changes.
\<close>

theorem read_new_logs_growth:
  assumes "log_file_exists r" and "last_position r = length old" and "well_formed_lines les"
  shows "read_new_logs (poll_present (old @ concat (map (\<lambda>(l, e). l @ e) les))) r
       = r\<lparr>last_position := length (old @ concat (map (\<lambda>(l, e). l @ e) les)),
           reader_signals := reader_signals r
             @ (if filter (\<lambda>l. l \<noteq> []) (map fst les) = [] then []
                else [logs_received (filter (\<lambda>l. l \<noteq> []) (map fst les))])\<rparr>"
proof (cases "les = []")
  case True
  with assms(1,2) show ?thesis by (simp add: read_new_logs_present)
next
  case False
  define d where "d = concat (map (\<lambda>(l, e). l @ e) les)"
  from False obtain l e les' where "les = (l, e) # les'" by (cases les) auto
  with assms(3) have "d \<noteq> []"
    by (auto simp: well_formed_lines_def d_def)
  then have grown: "\<not> length (old @ d) \<le> last_position r"
    using assms(2) by simp
  have tail: "drop (last_position r) (old @ d) = d"
    using assms(2) by simp
  have "read_new_logs (poll_present (old @ d)) r
      = r\<lparr>last_position := length (old @ d), reader_signals := reader_signals r @ batch_of d\<rparr>"
    by (simp only: read_new_logs_present [OF assms(1)] grown if_False tail)
  then show ?thesis
    unfolding d_def batch_of_lines [OF assms(3)] .
qed

theorem read_new_logs_growth_witness:
  "read_new_logs
     (poll_present ((''old'' @ [CHR 0x0A])
        @ concat (map (\<lambda>(l, e). l @ e)
            [(''Compiling'', [CHR 0x0A]), ([], [CHR 0x0D, CHR 0x0A]), (''45%'', [CHR 0x0D, CHR 0x0A])])))
     ((new_reader ''build.log'')\<lparr>log_file_exists := True, last_position := 4\<rparr>)
   = (new_reader ''build.log'')
       \<lparr>log_file_exists := True, last_position := 21,
        reader_signals := [logs_received [''Compiling'', ''45%'']]\<rparr>"
proof -
  let ?r = "(new_reader ''build.log'')\<lparr>log_file_exists := True, last_position := 4\<rparr>"
  let ?les = "[(''Compiling'', [CHR 0x0A]), ([], [CHR 0x0D, CHR 0x0A]), (''45%'', [CHR 0x0D, CHR 0x0A])]"
  have a: "log_file_exists ?r" by simp
  have b: "last_position ?r = length (''old'' @ [CHR 0x0A])" by simp
  have c: "well_formed_lines ?les" by (simp add: well_formed_lines_def)
  from read_new_logs_growth [OF a b c] show ?thesis by (simp add: new_reader_def)
qed

text \<open>
  The claim as it was stated asks for exactly one event. A file that grows by an empty
  line gives none: the source emits only \<open>if filtered_lines\<close>.
\<close>

theorem read_new_logs_growth_counterexample:
  "read_new_logs (poll_present (''old'' @ [CHR 0x0A, CHR 0x0A]))
     (read_new_logs (poll_present (''old'' @ [CHR 0x0A])) (new_reader ''build.log''))
   = (new_reader ''build.log'')
       \<lparr>log_file_exists := True, last_position := 5, reader_signals := [logs_received [''old'']]\<rparr>"
  by (simp add: eval_reader)

text \<open>
  Claim C7, as amended. When a poll finds the file missing, the next poll that finds a
  file reads it from byte 0: it delivers the batch of the whole content and stores the
  end of the file, whatever position was stored before the file went missing (the poll
  that finds the file missing resets a position that belonged to a file). And a poll
  that finds a file that was there before, of a size that is at most the stored
  position, delivers nothing and changes nothing.
\<close>

theorem read_new_logs_after_deletion:
  "read_new_logs (poll_present content) (read_new_logs poll_absent r)
     = r\<lparr>log_file_exists := True, last_position := length content,
         reader_signals := reader_signals r @ batch_of content\<rparr>
   \<and> last_position (read_new_logs poll_absent r) = (if log_file_exists r then 0 else last_position r)
   \<and> (log_file_exists r \<and> length content \<le> last_position r
        \<longrightarrow> read_new_logs (poll_present content) r = r)"
proof -
  have gone: "\<not> log_file_exists (read_new_logs poll_absent r)"
    by (simp add: read_new_logs_def poll_absent_def)
  have rest: "reader_signals (read_new_logs poll_absent r) = reader_signals r"
    "(read_new_logs poll_absent r)\<lparr>log_file_exists := True, last_position := n\<rparr>
       = r\<lparr>log_file_exists := True, last_position := n\<rparr>" for n
    by (simp_all add: read_new_logs_def poll_absent_def)
  have "read_new_logs (poll_present content) (read_new_logs poll_absent r)
     = r\<lparr>log_file_exists := True, last_position := length content,
         reader_signals := reader_signals r @ batch_of content\<rparr>"
    unfolding read_new_logs_fresh [OF gone] rest ..
  moreover have "last_position (read_new_logs poll_absent r)
      = (if log_file_exists r then 0 else last_position r)"
    by (simp add: read_new_logs_def poll_absent_def)
  ultimately show ?thesis by (simp add: read_new_logs_present)
qed

theorem read_new_logs_after_deletion_witness:
  "read_new_logs (poll_present (''fresh'' @ [CHR 0x0A]))
     (read_new_logs poll_absent
        (read_new_logs (poll_present (''old'' @ [CHR 0x0A])) (new_reader ''build.log'')))
   = (new_reader ''build.log'')
       \<lparr>log_file_exists := True, last_position := 6,
        reader_signals := [logs_received [''old''], logs_received [''fresh'']]\<rparr>
   \<and> read_new_logs (poll_present ''ab'')
       ((new_reader ''build.log'')\<lparr>log_file_exists := True, last_position := 4\<rparr>)
     = (new_reader ''build.log'')\<lparr>log_file_exists := True, last_position := 4\<rparr>"
proof -
  let ?r = "read_new_logs (poll_present (''old'' @ [CHR 0x0A])) (new_reader ''build.log'')"
  let ?q = "(new_reader ''build.log'')\<lparr>log_file_exists := True, last_position := 4\<rparr>"
  have r: "?r = (new_reader ''build.log'')
       \<lparr>log_file_exists := True, last_position := 4, reader_signals := [logs_received [''old'']]\<rparr>"
    by (simp add: eval_reader)
  have b: "batch_of (''fresh'' @ [CHR 0x0A]) = [logs_received [''fresh'']]"
    by (simp add: eval_reader)
  have q: "log_file_exists ?q \<and> length ''ab'' \<le> last_position ?q" by simp
  from read_new_logs_after_deletion [of "''fresh'' @ [CHR 0x0A]" ?r]
    read_new_logs_after_deletion [of "''ab''" ?q] q
  show ?thesis unfolding r b by (simp add: new_reader_def)
qed

text \<open>
  The claim as it was stated covers a file that is deleted and recreated between two
  polls. No poll finds it missing then, the stored position of the old file stays, and
  the new file is read from there: after \<open>old\<close> the new content \<open>fresh\<close> is delivered
  as \<open>h\<close>.
\<close>

theorem read_new_logs_after_deletion_counterexample:
  "read_new_logs (poll_present (''fresh'' @ [CHR 0x0A]))
     (read_new_logs (poll_present (''old'' @ [CHR 0x0A])) (new_reader ''build.log''))
   = (new_reader ''build.log'')
       \<lparr>log_file_exists := True, last_position := 6,
        reader_signals := [logs_received [''old''], logs_received [''h'']]\<rparr>"
  by (simp add: eval_reader)


section \<open>Properties of \<open>EmbeddedFile.validate\<close>\<close>

text \<open>
  Claim C10. \<open>validate\<close> accepts an empty destination path: when the source path exists,
  the destination path is the empty string, and the type is not \<open>PATTERN\<close> (or it is
  \<open>PATTERN\<close> with a non-empty pattern), the result is ok with the empty message. Neither
  the backslash check nor the leading-slash check rejects the empty destination.
\<close>

theorem validate_accepts_empty_destination:
  assumes "path_exists (source_path f)"
    and "destination_path f = []"
    and "file_type f \<noteq> PATTERN \<or> (\<exists>p. pattern f = Some p \<and> p \<noteq> [])"
  shows "validate path_exists f = (True, [])"
  using assms by (auto simp: validate_def startswith_def pattern_missing_def)

theorem validate_accepts_empty_destination_witness:
  "validate (\<lambda>p. p = ''/tmp/data.json'')
     \<lparr>source_path = ''/tmp/data.json'', destination_path = [], file_type = PATTERN,
      recursive = False, pattern = Some ''*.json''\<rparr> = (True, [])"
  using validate_accepts_empty_destination
    [of "\<lambda>p. p = ''/tmp/data.json''"
        "\<lparr>source_path = ''/tmp/data.json'', destination_path = [], file_type = PATTERN,
          recursive = False, pattern = Some ''*.json''\<rparr>"]
  by simp

end
